theory Spec2Isabelle
  imports Main "HOL-Library.Word" "HOL-Library.Multiset"
begin

unbundle bit_operations_syntax

section \<open>Data model of the zoneawareness plugin\<close>

text \<open>
  The plugin is written in Go. Slices are lists, a \<^verbatim>\<open>nil\<close> slice that the code tests
  with \<^verbatim>\<open>!= nil\<close> is \<open>None\<close>, a Go map is a partial function, and a run-time panic is a
  value of type \<open>panic\<close>. Pointers stored in containers (\<^verbatim>\<open>*Zone\<close> in the \<^verbatim>\<open>Zones\<close> map,
  \<^verbatim>\<open>*net.IPNet\<close> in \<^verbatim>\<open>CIDRs\<close>) are never nil where the code stores them (\<^verbatim>\<open>&Zone{}\<close>, the
  result of a successful \<^verbatim>\<open>net.ParseCIDR\<close>), so the containers hold values; a key that is
  absent from the map is what yields the nil pointer.
\<close>

type_synonym byte = "8 word"

type_synonym net_IP = "byte list"

record IPNet =
  IP :: net_IP
  Mask :: net_IP

record Zone =
  CIDRs :: "IPNet list"

datatype error = Error string

datatype panic = NilPointerDereference | IndexOutOfRange

record RR_Header =
  Name :: string
  Ttl :: nat

text \<open>
  \<^verbatim>\<open>dns.RR\<close> is an interface; the code distinguishes \<^verbatim>\<open>*dns.A\<close>, \<^verbatim>\<open>*dns.AAAA\<close> and
  everything else. The address field of an A or AAAA record is a \<^verbatim>\<open>net.IP\<close> that may be nil.
\<close>

datatype RR =
    A RR_Header "net_IP option"
  | AAAA RR_Header "net_IP option"
  | OtherRR RR_Header string

record Question =
  QName :: string
  Qtype :: nat

record Msg =
  Rcode :: int
  Question :: "Question list"
  Answer :: "RR list"

definition RcodeSuccess :: int where
  "RcodeSuccess = 0"

definition RcodeServerFailure :: int where
  "RcodeServerFailure = 2"

text \<open>
  What the next plugin of the chain did with the request: its return code, its error, and
  the last message it handed to the \<^verbatim>\<open>ResponsePrinter\<close> (\<^verbatim>\<open>pw.msg\<close>, nil when it wrote
  nothing).
\<close>

record NextOutcome =
  nrcode :: int
  nerr :: "error option"
  nmsg :: "Msg option"

type_synonym Handler = "Msg \<Rightarrow> NextOutcome"

type_synonym ResponseWriter = "Msg \<Rightarrow> error option"

record Zoneawareness =
  Next :: "Handler option"
  Zones :: "string \<rightharpoonup> Zone"
  currentAvailabilityZoneId :: string
  HasSynced :: bool

text \<open>
  The three Prometheus instruments of \<^verbatim>\<open>metrics.go\<close>, each a vector labelled by the server:
  two counters and a histogram, the latter kept as the list of its observations.
\<close>

record Metrics =
  reorderedQueriesCount :: "string \<Rightarrow> nat"
  reorderCount :: "string \<Rightarrow> nat"
  reorderLatency :: "string \<Rightarrow> nat list"

text \<open>What \<^verbatim>\<open>ServeDNS\<close> returns and leaves behind when it does not panic.\<close>

record Served =
  rcode :: int
  err :: "error option"
  written :: "Msg option"
  metrics :: Metrics

section \<open>Go's \<^verbatim>\<open>net\<close> package: membership of an address in a network\<close>

text \<open>
  \<^verbatim>\<open>IP.To4\<close>, \<^verbatim>\<open>networkNumberAndMask\<close> and \<^verbatim>\<open>IPNet.Contains\<close> of the Go standard library,
  which \<^verbatim>\<open>ipMatchesCIDRs\<close> calls. A nil result is \<open>None\<close> for \<^verbatim>\<open>To4\<close> and the empty list
  for \<^verbatim>\<open>networkNumberAndMask\<close>, whose callers only take its length.
\<close>

definition To4 :: "net_IP \<Rightarrow> net_IP option" where
  "To4 ip =
     (if length ip = 4 then Some ip
      else if length ip = 16 \<and> list_all (\<lambda>b. b = 0) (take 10 ip)
              \<and> ip ! 10 = 0xff \<and> ip ! 11 = 0xff
      then Some (drop 12 ip)
      else None)"

definition networkNumberAndMask :: "IPNet \<Rightarrow> net_IP \<times> net_IP" where
  "networkNumberAndMask n =
     (case (case To4 (IP n) of
              Some x \<Rightarrow> Some x
            | None \<Rightarrow> if length (IP n) \<noteq> 16 then None else Some (IP n)) of
        None \<Rightarrow> ([], [])
      | Some ip \<Rightarrow>
          if length (Mask n) = 4 then
            (if length ip \<noteq> 4 then ([], []) else (ip, Mask n))
          else if length (Mask n) = 16 then
            (if length ip = 4 then (ip, drop 12 (Mask n)) else (ip, Mask n))
          else ([], []))"

definition Contains :: "IPNet \<Rightarrow> net_IP \<Rightarrow> bool" where
  "Contains n ip =
     (case networkNumberAndMask n of (nn, m) \<Rightarrow>
        (case (case To4 ip of Some x \<Rightarrow> x | None \<Rightarrow> ip) of ip' \<Rightarrow>
           if length ip' \<noteq> length nn then False
           else list_all (\<lambda>i. (nn ! i) AND (m ! i) = (ip' ! i) AND (m ! i))
                  [0 ..< length ip']))"

section \<open>The request path: \<^verbatim>\<open>ServeDNS\<close>\<close>

fun extractRRIP :: "RR \<Rightarrow> net_IP option" where
  "extractRRIP (A h ip) = ip"
| "extractRRIP (AAAA h ip) = ip"
| "extractRRIP (OtherRR h d) = None"

fun ipMatchesCIDRs :: "net_IP \<Rightarrow> IPNet list \<Rightarrow> bool" where
  "ipMatchesCIDRs ip [] = False"
| "ipMatchesCIDRs ip (cidr # cidrs) =
     (if Contains cidr ip then True else ipMatchesCIDRs ip cidrs)"

text \<open>
  \<^verbatim>\<open>plugin.NextOrFailure\<close>: call the next handler, or fail when there is none.
\<close>

definition NextOrFailure :: "Handler option \<Rightarrow> Msg \<Rightarrow> NextOutcome" where
  "NextOrFailure next r =
     (case next of
        Some h \<Rightarrow> h r
      | None \<Rightarrow> \<lparr>nrcode = RcodeServerFailure,
                 nerr = Some (Error ''plugin/zoneawareness: no next plugin found''),
                 nmsg = None\<rparr>)"

definition writeFinalResponse :: "ResponseWriter \<Rightarrow> Msg \<Rightarrow> Metrics \<Rightarrow> Served" where
  "writeFinalResponse w msg mx =
     (case w msg of
        Some e \<Rightarrow> \<lparr>rcode = RcodeServerFailure, err = Some e, written = Some msg, metrics = mx\<rparr>
      | None \<Rightarrow> \<lparr>rcode = RcodeSuccess, err = None, written = Some msg, metrics = mx\<rparr>)"

text \<open>
  The loop of \<^verbatim>\<open>ServeDNS\<close> over \<^verbatim>\<open>pw.msg.Answer\<close>, with its two accumulators. The table
  \<^verbatim>\<open>e.Zones[e.currentAvailabilityZoneId].CIDRs\<close> is read only when the record carries an
  address (\<^verbatim>\<open>&&\<close> evaluates its right operand only then); a missing key gives a nil
  \<^verbatim>\<open>*Zone\<close>, whose field access panics.
\<close>

fun classify :: "Zoneawareness \<Rightarrow> RR list \<Rightarrow> RR list \<Rightarrow> RR list \<Rightarrow> panic + (RR list \<times> RR list)" where
  "classify e [] preferredAnswers otherAnswers = Inr (preferredAnswers, otherAnswers)"
| "classify e (rr # rrs) preferredAnswers otherAnswers =
     (case extractRRIP rr of
        None \<Rightarrow> classify e rrs preferredAnswers (otherAnswers @ [rr])
      | Some ip \<Rightarrow>
          (case Zones e (currentAvailabilityZoneId e) of
             None \<Rightarrow> Inl NilPointerDereference
           | Some zone \<Rightarrow>
               if ipMatchesCIDRs ip (CIDRs zone)
               then classify e rrs (preferredAnswers @ [rr]) otherAnswers
               else classify e rrs preferredAnswers (otherAnswers @ [rr])))"

definition Observe :: "string \<Rightarrow> nat \<Rightarrow> Metrics \<Rightarrow> Metrics" where
  "Observe server d mx =
     mx\<lparr>reorderLatency := (reorderLatency mx)(server := reorderLatency mx server @ [d])\<rparr>"

definition Inc :: "string \<Rightarrow> Metrics \<Rightarrow> Metrics" where
  "Inc server mx =
     mx\<lparr>reorderedQueriesCount :=
          (reorderedQueriesCount mx)(server := reorderedQueriesCount mx server + 1)\<rparr>"

definition Add :: "string \<Rightarrow> nat \<Rightarrow> Metrics \<Rightarrow> Metrics" where
  "Add server n mx =
     mx\<lparr>reorderCount := (reorderCount mx)(server := reorderCount mx server + n)\<rparr>"

text \<open>
  \<^verbatim>\<open>ServeDNS\<close>. \<open>server\<close> is the label \<^verbatim>\<open>metrics.WithServer(ctx)\<close>, \<open>elapsed\<close> the duration
  \<^verbatim>\<open>time.Since(reorderTimeStart)\<close> of the loop, \<open>w\<close> the response writer, \<open>r\<close> the request
  and \<open>mx\<close> the instruments before the call. The final debug line evaluates
  \<^verbatim>\<open>pw.msg.Question[0].Name\<close> whether or not debugging is on, which panics on an empty
  question section. A panic ends the call without a result; it is paired with the
  instruments as the call has left them by then, since an update that has run stays.
\<close>

definition ServeDNS ::
  "Zoneawareness \<Rightarrow> string \<Rightarrow> nat \<Rightarrow> ResponseWriter \<Rightarrow> Msg \<Rightarrow> Metrics
     \<Rightarrow> (panic \<times> Metrics) + Served" where
  "ServeDNS e server elapsed w r mx =
     (case NextOrFailure (Next e) r of nx \<Rightarrow>
        (case nerr nx of
           Some er \<Rightarrow> Inr \<lparr>rcode = nrcode nx, err = Some er, written = None, metrics = mx\<rparr>
         | None \<Rightarrow>
             (case nmsg nx of
                None \<Rightarrow> Inr \<lparr>rcode = nrcode nx, err = None, written = None, metrics = mx\<rparr>
              | Some msg \<Rightarrow>
                  if Rcode msg \<noteq> RcodeSuccess then Inr (writeFinalResponse w msg mx)
                  else if length (Answer msg) \<le> 1 then Inr (writeFinalResponse w msg mx)
                  else
                    (case classify e (Answer msg) [] [] of
                       Inl p \<Rightarrow> Inl (p, mx)
                     | Inr (preferredAnswers, otherAnswers) \<Rightarrow>
                         if length preferredAnswers = 0
                         then Inr (writeFinalResponse w msg (Observe server elapsed mx))
                         else
                           (case Question msg of
                              [] \<Rightarrow>
                                Inl (IndexOutOfRange,
                                     Add server (length preferredAnswers)
                                       (Inc server (Observe server elapsed mx)))
                            | q # qs \<Rightarrow>
                                Inr (writeFinalResponse w
                                       (msg\<lparr>Answer := preferredAnswers @ otherAnswers\<rparr>)
                                       (Add server (length preferredAnswers)
                                          (Inc server (Observe server elapsed mx)))))))))"

text \<open>The instruments after a call, whether it returned or panicked.\<close>

definition metricsAfter :: "(panic \<times> Metrics) + Served \<Rightarrow> Metrics" where
  "metricsAfter outcome = (case outcome of Inl (p, mx) \<Rightarrow> mx | Inr res \<Rightarrow> metrics res)"

text \<open>
  The condition under which the loop puts a record into \<^verbatim>\<open>preferredAnswers\<close>, for a given
  table: an address was extracted and it lies in one of the ranges.
\<close>

definition isPreferred :: "IPNet list \<Rightarrow> RR \<Rightarrow> bool" where
  "isPreferred cidrs rr =
     (case extractRRIP rr of None \<Rightarrow> False | Some ip \<Rightarrow> ipMatchesCIDRs ip cidrs)"

section \<open>The zone identifier pattern\<close>

text \<open>
  \<^verbatim>\<open>awsZoneIDPattern\<close> is the regular expression
  \<^verbatim>\<open>^[a-z]{2,4}[0-9](-[a-z]{3}[0-9])?-az[0-9]$\<close>. Regular expressions are a datatype, matched
  by derivatives; the expression is anchored at both ends, so \<^verbatim>\<open>MatchString\<close> asks
  whether the whole string belongs to its language. The string is read byte by byte, and
  every class of the pattern is a range of ASCII.
\<close>

datatype rexp =
    Nothing
  | Empty
  | Lit char
  | Range char char
  | Cat rexp rexp
  | Alt rexp rexp

fun nullable :: "rexp \<Rightarrow> bool" where
  "nullable Nothing = False"
| "nullable Empty = True"
| "nullable (Lit c) = False"
| "nullable (Range lo hi) = False"
| "nullable (Cat r s) = (nullable r \<and> nullable s)"
| "nullable (Alt r s) = (nullable r \<or> nullable s)"

fun deriv :: "char \<Rightarrow> rexp \<Rightarrow> rexp" where
  "deriv c Nothing = Nothing"
| "deriv c Empty = Nothing"
| "deriv c (Lit d) = (if c = d then Empty else Nothing)"
| "deriv c (Range lo hi) =
     (if (of_char lo :: nat) \<le> of_char c \<and> (of_char c :: nat) \<le> of_char hi
      then Empty else Nothing)"
| "deriv c (Cat r s) =
     (if nullable r then Alt (Cat (deriv c r) s) (deriv c s) else Cat (deriv c r) s)"
| "deriv c (Alt r s) = Alt (deriv c r) (deriv c s)"

fun MatchString :: "rexp \<Rightarrow> string \<Rightarrow> bool" where
  "MatchString r [] = nullable r"
| "MatchString r (c # cs) = MatchString (deriv c r) cs"

definition Opt :: "rexp \<Rightarrow> rexp" where
  "Opt r = Alt r Empty"

fun Repeat :: "rexp \<Rightarrow> nat \<Rightarrow> nat \<Rightarrow> rexp" where
  "Repeat r 0 0 = Empty"
| "Repeat r 0 (Suc hi) = Opt (Cat r (Repeat r 0 hi))"
| "Repeat r (Suc lo) hi = Cat r (Repeat r lo (hi - 1))"

definition lower :: rexp where
  "lower = Range CHR ''a'' CHR ''z''"

definition digit :: rexp where
  "digit = Range CHR ''0'' CHR ''9''"

definition awsZoneIDPattern :: rexp where
  "awsZoneIDPattern =
     Cat (Repeat lower 2 4)
       (Cat digit
          (Cat (Opt (Cat (Lit CHR ''-'') (Cat (Repeat lower 3 3) digit)))
             (Cat (Lit CHR ''-'') (Cat (Lit CHR ''a'') (Cat (Lit CHR ''z'') digit)))))"

section \<open>Setup: topology discovery and static configuration\<close>

text \<open>
  A \<^verbatim>\<open>context.Context\<close> as \<^verbatim>\<open>setup.go\<close> builds it, durations in nanoseconds. A call
  into the AWS SDK takes a context and may block: it returns \<open>None\<close> when it never returns,
  \<open>Some (Inl e)\<close> for an error and \<open>Some (Inr v)\<close> for a value.
\<close>

datatype Context = Background | WithTimeout Context nat

fun deadline :: "Context \<Rightarrow> nat option" where
  "deadline Background = None"
| "deadline (WithTimeout parent d) =
     (case deadline parent of None \<Rightarrow> Some d | Some p \<Rightarrow> Some (min p d))"

record Ipv6CidrBlockAssociation =
  Ipv6CidrBlock :: "string option"

record Subnet =
  SubnetId :: "string option"
  CidrBlock :: "string option"
  Ipv6CidrBlockAssociationSet :: "Ipv6CidrBlockAssociation list"

record AwsConfig =
  Region :: "string option"

text \<open>
  The library calls of \<^verbatim>\<open>getConfigFromIMDSv2\<close> and \<^verbatim>\<open>getSubnetsFromEC2\<close>:
  \<^verbatim>\<open>config.LoadDefaultConfig\<close> (with the optional \<^verbatim>\<open>WithRegion\<close>), the IMDS client's
  \<^verbatim>\<open>GetMetadata\<close> by path, whose content is what \<^verbatim>\<open>io.ReadAll\<close> makes of it, the EC2
  client's \<^verbatim>\<open>DescribeSubnets\<close> filtered by \<^verbatim>\<open>availability-zone-id\<close>, and
  \<^verbatim>\<open>strings.TrimSpace\<close>.
\<close>

record SDK =
  LoadDefaultConfig :: "Context \<Rightarrow> string option \<Rightarrow> (error + AwsConfig) option"
  GetMetadata :: "AwsConfig \<Rightarrow> Context \<Rightarrow> string \<Rightarrow> (error + (error + string)) option"
  DescribeSubnets :: "AwsConfig \<Rightarrow> Context \<Rightarrow> string \<Rightarrow> (error + Subnet list) option"
  TrimSpace :: "string \<Rightarrow> string"

text \<open>
  What \<^verbatim>\<open>setup\<close> reaches through package-level variables and library functions: the two
  function variables \<^verbatim>\<open>getConfigFromIMDSv2Func\<close> and \<^verbatim>\<open>getSubnetsFromEC2Func\<close> (which
  the tests replace), \<^verbatim>\<open>net.ParseCIDR\<close> and \<^verbatim>\<open>os.Getenv\<close>.
\<close>

record Deps =
  getConfigFromIMDSv2Func :: "(error + string \<times> string) option"
  getSubnetsFromEC2Func :: "Context \<Rightarrow> string \<Rightarrow> string \<Rightarrow> (error + Subnet list) option"
  ParseCIDR :: "string \<Rightarrow> error + IPNet"
  Getenv :: "string \<Rightarrow> string"

record SetupResult =
  handler :: Zoneawareness
  installed :: bool

text \<open>
  \<^verbatim>\<open>fmt.Errorf\<close> with a message and a wrapped error (\<^verbatim>\<open>"...: %w"\<close>), and a text between
  single quotes (\<^verbatim>\<open>'%s'\<close>).
\<close>

definition Errorf :: "string \<Rightarrow> error \<Rightarrow> error" where
  "Errorf prefix e = (case e of Error m \<Rightarrow> Error (prefix @ '': '' @ m))"

definition quoted :: "string \<Rightarrow> string" where
  "quoted s = [CHR 0x27] @ s @ [CHR 0x27]"

definition imdsTimeout :: nat where
  "imdsTimeout = 2 * 1000000000"

definition getConfigFromIMDSv2 :: "SDK \<Rightarrow> (error + string \<times> string) option" where
  "getConfigFromIMDSv2 sdk =
     (case WithTimeout Background imdsTimeout of ctx \<Rightarrow>
        (case LoadDefaultConfig sdk ctx None of
           None \<Rightarrow> None
         | Some (Inl e) \<Rightarrow> Some (Inl (Errorf ''failed to load AWS SDK config'' e))
         | Some (Inr cfg) \<Rightarrow>
             (case GetMetadata sdk cfg ctx ''placement/availability-zone-id'' of
                None \<Rightarrow> None
              | Some (Inl e) \<Rightarrow> Some (Inl (Errorf
                  (''failed to get AZ ID from IMDS (instance may not be EC2 or ''
                     @ ''IMDSv2 disabled/misconfigured)'') e))
              | Some (Inr (Inl e)) \<Rightarrow>
                  Some (Inl (Errorf ''failed to read AZ ID from IMDS response body'' e))
              | Some (Inr (Inr azIDBytes)) \<Rightarrow>
                  (case TrimSpace sdk azIDBytes of azID \<Rightarrow>
                     if \<not> MatchString awsZoneIDPattern azID
                     then Some (Inl (Error (''fetched AZ ID '' @ quoted azID
                                             @ '' from IMDS has an invalid format'')))
                     else
                       (case GetMetadata sdk cfg ctx ''placement/region'' of
                          None \<Rightarrow> None
                        | Some (Inl e) \<Rightarrow>
                            Some (Inl (Errorf ''failed to get region from IMDS'' e))
                        | Some (Inr (Inl e)) \<Rightarrow>
                            Some (Inl (Errorf
                              ''failed to read region from IMDS response body'' e))
                        | Some (Inr (Inr regionBytes)) \<Rightarrow>
                            Some (Inr (azID, TrimSpace sdk regionBytes)))))))"

definition getSubnetsFromEC2 ::
  "SDK \<Rightarrow> Context \<Rightarrow> string \<Rightarrow> string \<Rightarrow> (error + Subnet list) option" where
  "getSubnetsFromEC2 sdk ctx azID region =
     (case LoadDefaultConfig sdk ctx (Some region) of
        None \<Rightarrow> None
      | Some (Inl e) \<Rightarrow> Some (Inl (Errorf ''failed to load AWS SDK config'' e))
      | Some (Inr cfg) \<Rightarrow>
          (case DescribeSubnets sdk cfg ctx azID of
             None \<Rightarrow> None
           | Some (Inl e) \<Rightarrow> Some (Inl (Errorf (''failed to describe subnets for AZ ID '' @ quoted azID) e))
           | Some (Inr subnets) \<Rightarrow> Some (Inr subnets)))"

text \<open>
  The block that \<^verbatim>\<open>setup\<close> repeats at each of its three insertion points: look the zone
  up, create it when it does not exist, append the range.
\<close>

definition addCIDR :: "string \<Rightarrow> IPNet \<Rightarrow> (string \<rightharpoonup> Zone) \<Rightarrow> (string \<rightharpoonup> Zone)" where
  "addCIDR zoneName cidr zones =
     (case zones zoneName of
        None \<Rightarrow> zones(zoneName \<mapsto> \<lparr>CIDRs = [cidr]\<rparr>)
      | Some zone \<Rightarrow> zones(zoneName \<mapsto> zone\<lparr>CIDRs := CIDRs zone @ [cidr]\<rparr>))"

text \<open>
  One discovered prefix of a subnet. Both the warning and the success message format
  \<^verbatim>\<open>*subnet.SubnetId\<close>, which panics when the identifier is nil.
\<close>

definition addSubnetCIDR ::
  "(string \<Rightarrow> error + IPNet) \<Rightarrow> string \<Rightarrow> Subnet \<Rightarrow> string option \<Rightarrow> (string \<rightharpoonup> Zone)
     \<Rightarrow> panic + (string \<rightharpoonup> Zone)" where
  "addSubnetCIDR parse cur subnet block zones =
     (case block of
        None \<Rightarrow> Inr zones
      | Some cidrStr \<Rightarrow>
          if cidrStr = [] then Inr zones
          else
            (case parse cidrStr of
               Inl parseErr \<Rightarrow>
                 (case SubnetId subnet of
                    None \<Rightarrow> Inl NilPointerDereference
                  | Some sid \<Rightarrow> Inr zones)
             | Inr parsedCIDR \<Rightarrow>
                 (case SubnetId subnet of
                    None \<Rightarrow> Inl NilPointerDereference
                  | Some sid \<Rightarrow> Inr (addCIDR cur parsedCIDR zones))))"

fun addIpv6Blocks ::
  "(string \<Rightarrow> error + IPNet) \<Rightarrow> string \<Rightarrow> Subnet \<Rightarrow> Ipv6CidrBlockAssociation list
     \<Rightarrow> (string \<rightharpoonup> Zone) \<Rightarrow> panic + (string \<rightharpoonup> Zone)" where
  "addIpv6Blocks parse cur subnet [] zones = Inr zones"
| "addIpv6Blocks parse cur subnet (ipv6Assoc # rest) zones =
     (case addSubnetCIDR parse cur subnet (Ipv6CidrBlock ipv6Assoc) zones of
        Inl p \<Rightarrow> Inl p
      | Inr zones' \<Rightarrow> addIpv6Blocks parse cur subnet rest zones')"

fun addSubnets ::
  "(string \<Rightarrow> error + IPNet) \<Rightarrow> string \<Rightarrow> Subnet list \<Rightarrow> (string \<rightharpoonup> Zone)
     \<Rightarrow> panic + (string \<rightharpoonup> Zone)" where
  "addSubnets parse cur [] zones = Inr zones"
| "addSubnets parse cur (subnet # rest) zones =
     (case addSubnetCIDR parse cur subnet (CidrBlock subnet) zones of
        Inl p \<Rightarrow> Inl p
      | Inr zones1 \<Rightarrow>
          (case addIpv6Blocks parse cur subnet (Ipv6CidrBlockAssociationSet subnet) zones1 of
             Inl p \<Rightarrow> Inl p
           | Inr zones2 \<Rightarrow> addSubnets parse cur rest zones2))"

text \<open>
  First phase of \<^verbatim>\<open>setup\<close>: the outcome of the IMDS lookup decides whether the zone
  identifier is set and the inventory is queried. The inventory function is called with
  \<^verbatim>\<open>context.Background()\<close>.
\<close>

definition discover ::
  "Deps \<Rightarrow> error + string \<times> string \<Rightarrow> Zoneawareness \<Rightarrow> (panic + Zoneawareness) option" where
  "discover d imds l =
     (case imds of
        Inl e \<Rightarrow> Some (Inr l)
      | Inr (instanceAvailabilityZoneId, instanceRegion) \<Rightarrow>
          if instanceAvailabilityZoneId \<noteq> [] \<and> instanceRegion \<noteq> [] then
            (case getSubnetsFromEC2Func d Background instanceAvailabilityZoneId instanceRegion of
               None \<Rightarrow> None
             | Some (Inl e) \<Rightarrow>
                 Some (Inr (l\<lparr>currentAvailabilityZoneId := instanceAvailabilityZoneId\<rparr>))
             | Some (Inr subnets) \<Rightarrow>
                 (case addSubnets (ParseCIDR d) instanceAvailabilityZoneId subnets (Zones l) of
                    Inl p \<Rightarrow> Some (Inl p)
                  | Inr zones \<Rightarrow>
                      Some (Inr (l\<lparr>currentAvailabilityZoneId := instanceAvailabilityZoneId,
                                   Zones := zones\<rparr>))))
          else Some (Inr l))"

text \<open>Second phase: the environment variable \<^verbatim>\<open>AWS_ZONE_ID\<close>.\<close>

definition envFallback :: "Deps \<Rightarrow> Zoneawareness \<Rightarrow> Zoneawareness" where
  "envFallback d l =
     (if currentAvailabilityZoneId l = [] then
        (if MatchString awsZoneIDPattern (Getenv d ''AWS_ZONE_ID'')
         then l\<lparr>currentAvailabilityZoneId := Getenv d ''AWS_ZONE_ID''\<rparr>
         else l)
      else l)"

text \<open>
  Third phase: the statements of the Corefile, each the list of arguments that follow one
  occurrence of the directive. The inner loop runs over \<^verbatim>\<open>args[1:]\<close>.
\<close>

fun addCIDRArgs ::
  "(string \<Rightarrow> error + IPNet) \<Rightarrow> string \<Rightarrow> string list \<Rightarrow> (string \<rightharpoonup> Zone) \<Rightarrow> (string \<rightharpoonup> Zone)" where
  "addCIDRArgs parse zoneName [] zones = zones"
| "addCIDRArgs parse zoneName (cidrStr # rest) zones =
     (case parse cidrStr of
        Inl e \<Rightarrow> addCIDRArgs parse zoneName rest zones
      | Inr cidr \<Rightarrow> addCIDRArgs parse zoneName rest (addCIDR zoneName cidr zones))"

definition mergeStatement ::
  "(string \<Rightarrow> error + IPNet) \<Rightarrow> string \<Rightarrow> string list \<Rightarrow> (string \<rightharpoonup> Zone) \<Rightarrow> (string \<rightharpoonup> Zone)" where
  "mergeStatement parse cur args zones =
     (if length args \<ge> 2 then
        (case args of
           [] \<Rightarrow> zones
         | zoneName # cidrArgs \<Rightarrow>
             if zoneName \<noteq> cur then zones
             else if \<not> MatchString awsZoneIDPattern zoneName then zones
             else addCIDRArgs parse zoneName cidrArgs zones)
      else zones)"

fun parseCorefile ::
  "(string \<Rightarrow> error + IPNet) \<Rightarrow> string \<Rightarrow> string list list \<Rightarrow> (string \<rightharpoonup> Zone) \<Rightarrow> (string \<rightharpoonup> Zone)" where
  "parseCorefile parse cur [] zones = zones"
| "parseCorefile parse cur (args # rest) zones =
     parseCorefile parse cur rest (mergeStatement parse cur args zones)"

text \<open>
  Last phase: without a zone identifier nothing is parsed and nothing installed; otherwise
  the plugin is added to the chain only when the current zone has at least one range.
\<close>

definition finish :: "Deps \<Rightarrow> string list list \<Rightarrow> Zoneawareness \<Rightarrow> SetupResult" where
  "finish d corefile l =
     (if currentAvailabilityZoneId l = [] then \<lparr>handler = l, installed = False\<rparr>
      else
        (case l\<lparr>Zones := parseCorefile (ParseCIDR d) (currentAvailabilityZoneId l) corefile
                           (Zones l)\<rparr> of l' \<Rightarrow>
           (case Zones l' (currentAvailabilityZoneId l') of
              Some currentZoneData \<Rightarrow>
                if length (CIDRs currentZoneData) > 0
                then \<lparr>handler = l', installed = True\<rparr>
                else \<lparr>handler = l', installed = False\<rparr>
            | None \<Rightarrow> \<lparr>handler = l', installed = False\<rparr>)))"

definition setup_plugin :: "Deps \<Rightarrow> string list list \<Rightarrow> (panic + SetupResult) option" where
  "setup_plugin d corefile =
     (case getConfigFromIMDSv2Func d of
        None \<Rightarrow> None
      | Some imds \<Rightarrow>
          (case discover d imds
                  \<lparr>Next = None, Zones = Map.empty, currentAvailabilityZoneId = [],
                   HasSynced = False\<rparr> of
             None \<Rightarrow> None
           | Some (Inl p) \<Rightarrow> Some (Inl p)
           | Some (Inr l) \<Rightarrow> Some (Inr (finish d corefile (envFallback d l)))))"

text \<open>
  The closure that \<^verbatim>\<open>setup\<close> hands to \<^verbatim>\<open>AddPlugin\<close>, run when the server builds its
  chain: it marks the plugin as synced and links the next handler.
\<close>

definition activate :: "Zoneawareness \<Rightarrow> Handler option \<Rightarrow> Zoneawareness" where
  "activate l next = l\<lparr>HasSynced := True, Next := next\<rparr>"

text \<open>The package as deployed: the function variables hold the two SDK-backed functions.\<close>

definition production ::
  "SDK \<Rightarrow> (string \<Rightarrow> error + IPNet) \<Rightarrow> (string \<Rightarrow> string) \<Rightarrow> Deps" where
  "production sdk parse getenv =
     \<lparr>getConfigFromIMDSv2Func = getConfigFromIMDSv2 sdk,
      getSubnetsFromEC2Func = getSubnetsFromEC2 sdk,
      ParseCIDR = parse,
      Getenv = getenv\<rparr>"

section \<open>Test fixtures\<close>

text \<open>
  The values of the package's own tests (\<^verbatim>\<open>TestZoneawareness\<close>, \<^verbatim>\<open>TestZoneawarenessCases\<close>):
  a plugin whose current zone \<^verbatim>\<open>euc1-az2\<close> holds \<^verbatim>\<open>10.0.0.0/24\<close>, a mock next handler that
  writes a prepared reply and returns success, and answer lists.
\<close>

definition exampleNet :: IPNet where
  "exampleNet = \<lparr>IP = [10, 0, 0, 0], Mask = [255, 255, 255, 0]\<rparr>"

definition exampleHeader :: RR_Header where
  "exampleHeader = \<lparr>Name = ''example.org.'', Ttl = 300\<rparr>"

definition exampleQuestion :: Question where
  "exampleQuestion = \<lparr>QName = ''example.org.'', Qtype = 1\<rparr>"

definition exampleRequest :: Msg where
  "exampleRequest = \<lparr>Rcode = 0, Question = [exampleQuestion], Answer = []\<rparr>"

definition reply :: "int \<Rightarrow> RR list \<Rightarrow> Msg" where
  "reply rc answers = \<lparr>Rcode = rc, Question = [exampleQuestion], Answer = answers\<rparr>"

definition mockHandler :: "Msg \<Rightarrow> Handler" where
  "mockHandler msg r = \<lparr>nrcode = RcodeSuccess, nerr = None, nmsg = Some msg\<rparr>"

definition examplePlugin :: "Msg \<Rightarrow> Zoneawareness" where
  "examplePlugin msg =
     \<lparr>Next = Some (mockHandler msg),
      Zones = [''euc1-az2'' \<mapsto> \<lparr>CIDRs = [exampleNet]\<rparr>],
      currentAvailabilityZoneId = ''euc1-az2'',
      HasSynced = True\<rparr>"

definition noMetrics :: Metrics where
  "noMetrics = \<lparr>reorderedQueriesCount = (\<lambda>s. 0), reorderCount = (\<lambda>s. 0), reorderLatency = (\<lambda>s. [])\<rparr>"

definition okWriter :: ResponseWriter where
  "okWriter msg = None"

definition mixedAnswers :: "RR list" where
  "mixedAnswers =
     [A exampleHeader (Some [10, 0, 0, 1]),
      A exampleHeader (Some [192, 168, 1, 1]),
      A exampleHeader (Some [10, 0, 0, 2])]"

definition reorderedAnswers :: "RR list" where
  "reorderedAnswers =
     [A exampleHeader (Some [10, 0, 0, 1]),
      A exampleHeader (Some [10, 0, 0, 2]),
      A exampleHeader (Some [192, 168, 1, 1])]"

definition foreignAnswers :: "RR list" where
  "foreignAnswers =
     [A exampleHeader (Some [198, 51, 100, 1]),
      A exampleHeader (Some [198, 51, 100, 2])]"

definition foreignNet :: IPNet where
  "foreignNet = \<lparr>IP = [192, 0, 2, 0], Mask = [255, 255, 255, 0]\<rparr>"

definition variedAnswers :: "RR list" where
  "variedAnswers =
     [OtherRR exampleHeader ''alias.example.org.'',
      A exampleHeader (Some [192, 168, 1, 1]),
      A exampleHeader (Some [0, 0, 0, 0, 0, 0, 0, 0, 0, 0, 255, 255, 10, 0, 0, 2]),
      AAAA exampleHeader (Some [32, 1, 13, 184, 0, 0, 0, 0, 0, 0, 0, 0, 0, 0, 0, 1]),
      A exampleHeader None]"

definition variedReordered :: "RR list" where
  "variedReordered =
     [A exampleHeader (Some [0, 0, 0, 0, 0, 0, 0, 0, 0, 0, 255, 255, 10, 0, 0, 2]),
      OtherRR exampleHeader ''alias.example.org.'',
      A exampleHeader (Some [192, 168, 1, 1]),
      AAAA exampleHeader (Some [32, 1, 13, 184, 0, 0, 0, 0, 0, 0, 0, 0, 0, 0, 0, 1]),
      A exampleHeader None]"

text \<open>
  Doubles for the library, as the tests of \<^verbatim>\<open>setup\<close> replace the package's function
  variables: a \<^verbatim>\<open>ParseCIDR\<close> that knows the prefixes of \<^verbatim>\<open>TestSetup\<close> and rejects every
  other text, an environment that holds \<^verbatim>\<open>AWS_ZONE_ID\<close>, a \<^verbatim>\<open>TrimSpace\<close> for ASCII
  white space, and SDKs whose network calls end at the deadline of their context, and
  never when it has none.
\<close>

definition prefix24 :: "byte \<Rightarrow> byte \<Rightarrow> byte \<Rightarrow> IPNet" where
  "prefix24 a b c = \<lparr>IP = [a, b, c, 0], Mask = [255, 255, 255, 0]\<rparr>"

definition testParseCIDR :: "string \<Rightarrow> error + IPNet" where
  "testParseCIDR s =
     (if s = ''192.168.1.0/24'' then Inr (prefix24 192 168 1)
      else if s = ''10.0.1.0/24'' then Inr (prefix24 10 0 1)
      else if s = ''10.0.2.0/24'' then Inr (prefix24 10 0 2)
      else if s = ''172.16.0.0/16'' then Inr \<lparr>IP = [172, 16, 0, 0], Mask = [255, 255, 0, 0]\<rparr>
      else Inl (Error (''invalid CIDR address: '' @ s)))"

definition envWith :: "string \<Rightarrow> string \<Rightarrow> string" where
  "envWith v name = (if name = ''AWS_ZONE_ID'' then v else [])"

definition isSpaceASCII :: "char \<Rightarrow> bool" where
  "isSpaceASCII c = ((of_char c :: nat) = 32 \<or> (9 \<le> (of_char c :: nat) \<and> (of_char c :: nat) \<le> 13))"

definition trimSpaceASCII :: "string \<Rightarrow> string" where
  "trimSpaceASCII s = rev (dropWhile isSpaceASCII (rev (dropWhile isSpaceASCII s)))"

definition untilDeadline :: "Context \<Rightarrow> (error + 'a) option" where
  "untilDeadline ctx =
     (case deadline ctx of
        None \<Rightarrow> None
      | Some d \<Rightarrow> Some (Inl (Error ''context deadline exceeded'')))"

definition sdkInventoryUnreachable :: SDK where
  "sdkInventoryUnreachable =
     \<lparr>LoadDefaultConfig = (\<lambda>ctx region. Some (Inr \<lparr>Region = region\<rparr>)),
      GetMetadata = (\<lambda>cfg ctx path.
        if path = ''placement/availability-zone-id'' then Some (Inr (Inr ''use1-az1\<newline>''))
        else Some (Inr (Inr ''us-east-1''))),
      DescribeSubnets = (\<lambda>cfg ctx azID. untilDeadline ctx),
      TrimSpace = trimSpaceASCII\<rparr>"

definition sdkUnreachable :: SDK where
  "sdkUnreachable =
     \<lparr>LoadDefaultConfig = (\<lambda>ctx region. Some (Inr \<lparr>Region = region\<rparr>)),
      GetMetadata = (\<lambda>cfg ctx path. untilDeadline ctx),
      DescribeSubnets = (\<lambda>cfg ctx azID. untilDeadline ctx),
      TrimSpace = trimSpaceASCII\<rparr>"

definition sdkOneSubnet :: SDK where
  "sdkOneSubnet =
     \<lparr>LoadDefaultConfig = (\<lambda>ctx region. Some (Inr \<lparr>Region = region\<rparr>)),
      GetMetadata = (\<lambda>cfg ctx path.
        if path = ''placement/availability-zone-id'' then Some (Inr (Inr ''use1-az1\<newline>''))
        else Some (Inr (Inr ''us-east-1''))),
      DescribeSubnets = (\<lambda>cfg ctx azID.
        Some (Inr [\<lparr>SubnetId = Some ''subnet-1'', CidrBlock = Some ''10.0.1.0/24'',
                    Ipv6CidrBlockAssociationSet = []\<rparr>])),
      TrimSpace = trimSpaceASCII\<rparr>"

definition barePlugin :: "Msg \<Rightarrow> Zoneawareness" where
  "barePlugin msg =
     \<lparr>Next = Some (mockHandler msg),
      Zones = Map.empty,
      currentAvailabilityZoneId = ''use2-az1'',
      HasSynced = False\<rparr>"

definition aliasAnswers :: "RR list" where
  "aliasAnswers =
     [OtherRR exampleHeader ''alias.example.org.'',
      OtherRR exampleHeader ''target.example.net.'']"

text \<open>
  A successful reply without a question section, and a next handler that writes a reply
  and returns an error together with the code for success, as a backend does that has
  answered the client itself.
\<close>

definition questionless :: "RR list \<Rightarrow> Msg" where
  "questionless answers = \<lparr>Rcode = 0, Question = [], Answer = answers\<rparr>"

definition erroringHandler :: "Msg \<Rightarrow> Handler" where
  "erroringHandler msg r =
     \<lparr>nrcode = RcodeSuccess, nerr = Some (Error ''backend failed''), nmsg = Some msg\<rparr>"

definition erroringPlugin :: "Msg \<Rightarrow> Zoneawareness" where
  "erroringPlugin msg =
     \<lparr>Next = Some (erroringHandler msg),
      Zones = [''euc1-az2'' \<mapsto> \<lparr>CIDRs = [exampleNet]\<rparr>],
      currentAvailabilityZoneId = ''euc1-az2'',
      HasSynced = True\<rparr>"

text \<open>
  The ranges among the arguments of a statement that \<^verbatim>\<open>ParseCIDR\<close> accepts, in order,
  and the ranges a registry holds for a zone.
\<close>

definition validCIDRs :: "(string \<Rightarrow> error + IPNet) \<Rightarrow> string list \<Rightarrow> IPNet list" where
  "validCIDRs parse cidrStrs =
     List.map_filter (\<lambda>s. case parse s of Inl e \<Rightarrow> None | Inr cidr \<Rightarrow> Some cidr) cidrStrs"

definition rangesOf :: "(string \<rightharpoonup> Zone) \<Rightarrow> string \<Rightarrow> IPNet list" where
  "rangesOf zones zoneName = (case zones zoneName of None \<Rightarrow> [] | Some zone \<Rightarrow> CIDRs zone)"

text \<open>
  What a Corefile declares for the current zone: statement by statement, the arguments
  after the first that \<^verbatim>\<open>ParseCIDR\<close> accepts, for the statements with two or more
  arguments whose first is the current zone identifier, when that identifier has the
  form of a zone identifier.
\<close>

definition staticRanges :: "(string \<Rightarrow> error + IPNet) \<Rightarrow> string \<Rightarrow> string list list \<Rightarrow> IPNet list" where
  "staticRanges parse cur corefile =
     concat (map (\<lambda>args. if 2 \<le> length args \<and> hd args = cur \<and> MatchString awsZoneIDPattern cur
                         then validCIDRs parse (tl args) else [])
                 corefile)"

section \<open>The request path: auxiliary facts\<close>

lemma classify_present:
  "Zones e (currentAvailabilityZoneId e) = Some z \<Longrightarrow>
   classify e rrs ps os =
     Inr (ps @ filter (isPreferred (CIDRs z)) rrs,
          os @ filter (\<lambda>rr. \<not> isPreferred (CIDRs z) rr) rrs)"
  by (induction rrs arbitrary: ps os) (auto simp: isPreferred_def split: option.splits)

lemma classify_absent:
  "Zones e (currentAvailabilityZoneId e) = None \<Longrightarrow>
   classify e rrs ps os =
     (if list_all (\<lambda>rr. extractRRIP rr = None) rrs then Inr (ps, os @ rrs)
      else Inl NilPointerDereference)"
  by (induction rrs arbitrary: ps os) (auto split: option.splits)

lemma classify_cong:
  "Zones e' = Zones e \<Longrightarrow> currentAvailabilityZoneId e' = currentAvailabilityZoneId e \<Longrightarrow>
   classify e' rrs ps os = classify e rrs ps os"
  by (induction rrs arbitrary: ps os) (auto split: option.splits)

lemma classify_again:
  assumes "classify e rrs [] [] = Inr (ps, os)"
  shows "classify e (ps @ os) [] [] = Inr (ps, os) \<and> length (ps @ os) = length rrs"
proof (cases "Zones e (currentAvailabilityZoneId e)")
  case None
  from assms have "ps = [] \<and> os = rrs"
    using classify_absent [OF None, of rrs "[]" "[]"] by (simp split: if_splits)
  with assms show ?thesis by simp
next
  case (Some z)
  from assms have "ps = filter (isPreferred (CIDRs z)) rrs"
    and "os = filter (\<lambda>rr. \<not> isPreferred (CIDRs z) rr) rrs"
    using classify_present [OF Some, of rrs "[]" "[]"] by simp_all
  then show ?thesis
    using classify_present [OF Some, of "ps @ os" "[]" "[]"] sum_length_filter_compl [of "isPreferred (CIDRs z)" rrs]
    by simp
qed

lemma ipMatchesCIDRs_list_ex: "ipMatchesCIDRs ip cidrs = list_ex (\<lambda>c. Contains c ip) cidrs"
  by (induction cidrs) auto

lemma stable_partition_mset:
  "mset (filter P xs @ filter (\<lambda>x. \<not> P x) xs) = mset xs"
  by simp

lemma stable_partition_order:
  assumes "i < length (filter P xs @ filter (\<lambda>x. \<not> P x) xs)"
    and "j < length (filter P xs @ filter (\<lambda>x. \<not> P x) xs)"
    and "P ((filter P xs @ filter (\<lambda>x. \<not> P x) xs) ! i)"
    and "\<not> P ((filter P xs @ filter (\<lambda>x. \<not> P x) xs) ! j)"
  shows "i < j"
proof -
  let ?ps = "filter P xs" and ?os = "filter (\<lambda>x. \<not> P x) xs"
  have i: "i < length ?ps"
  proof (rule ccontr)
    assume "\<not> i < length ?ps"
    with assms(1) have "i - length ?ps < length ?os" and "(?ps @ ?os) ! i = ?os ! (i - length ?ps)"
      by (simp_all add: nth_append)
    with assms(3) nth_mem [of "i - length ?ps" ?os] show False by auto
  qed
  have j: "\<not> j < length ?ps"
  proof
    assume "j < length ?ps"
    then have "(?ps @ ?os) ! j = ?ps ! j"
      by (simp add: nth_append)
    with assms(4) nth_mem [of j ?ps] \<open>j < length ?ps\<close> show False by auto
  qed
  from i j show ?thesis by simp
qed

lemma written_writeFinalResponse: "written (writeFinalResponse w msg mx) = Some msg"
  by (simp add: writeFinalResponse_def split: option.splits)

lemma ServeDNS_written_cases:
  assumes "ServeDNS e server elapsed w req mx = Inr res" and "written res = Some out"
  shows "\<exists>rc msg. NextOrFailure (Next e) req = \<lparr>nrcode = rc, nerr = None, nmsg = Some msg\<rparr>
           \<and> ((out = msg \<and> (Rcode msg \<noteq> RcodeSuccess \<or> length (Answer msg) \<le> 1
                              \<or> (\<exists>os. classify e (Answer msg) [] [] = Inr ([], os))))
              \<or> (Rcode msg = RcodeSuccess \<and> 2 \<le> length (Answer msg) \<and> Question msg \<noteq> []
                  \<and> (\<exists>ps os. ps \<noteq> [] \<and> classify e (Answer msg) [] [] = Inr (ps, os)
                        \<and> out = msg\<lparr>Answer := ps @ os\<rparr>)))"
proof -
  obtain rc er m where nx: "NextOrFailure (Next e) req = \<lparr>nrcode = rc, nerr = er, nmsg = m\<rparr>"
    by (cases "NextOrFailure (Next e) req") auto
  from assms nx obtain msg where er: "er = None" and m: "m = Some msg"
    by (cases er; cases m) (auto simp: ServeDNS_def)
  show ?thesis
  proof (cases "Rcode msg \<noteq> RcodeSuccess \<or> length (Answer msg) \<le> 1")
    case True
    with assms nx er m have "out = msg"
      by (auto simp: ServeDNS_def written_writeFinalResponse split: if_splits)
    with True nx er m show ?thesis by auto
  next
    case False
    with assms nx er m obtain ps os where cl: "classify e (Answer msg) [] [] = Inr (ps, os)"
      by (cases "classify e (Answer msg) [] []") (auto simp: ServeDNS_def split: if_splits)
    show ?thesis
    proof (cases "ps = []")
      case True
      with assms nx er m False cl have "out = msg"
        by (auto simp: ServeDNS_def written_writeFinalResponse split: if_splits)
      with True cl nx er m show ?thesis by auto
    next
      case ne: False
      with assms nx er m False cl have "Question msg \<noteq> [] \<and> out = msg\<lparr>Answer := ps @ os\<rparr>"
        by (cases "Question msg") (auto simp: ServeDNS_def written_writeFinalResponse split: if_splits)
      with ne cl nx er m False show ?thesis by auto
    qed
  qed
qed

lemma example_zone:
  "Zones (examplePlugin msg) (currentAvailabilityZoneId (examplePlugin msg)) = Some \<lparr>CIDRs = [exampleNet]\<rparr>"
  by (simp add: examplePlugin_def)

lemma example_next:
  "NextOrFailure (Next (examplePlugin msg)) req = \<lparr>nrcode = RcodeSuccess, nerr = None, nmsg = Some msg\<rparr>"
  by (simp add: examplePlugin_def NextOrFailure_def mockHandler_def)

lemma example_preferred:
  "isPreferred [exampleNet] (A exampleHeader (Some [10, 0, 0, 1]))"
  "isPreferred [exampleNet] (A exampleHeader (Some [10, 0, 0, 2]))"
  "\<not> isPreferred [exampleNet] (A exampleHeader (Some [192, 168, 1, 1]))"
  "\<not> isPreferred [exampleNet] (A exampleHeader (Some [198, 51, 100, 1]))"
  "\<not> isPreferred [exampleNet] (A exampleHeader (Some [198, 51, 100, 2]))"
  "isPreferred [exampleNet] (A exampleHeader (Some [0, 0, 0, 0, 0, 0, 0, 0, 0, 0, 255, 255, 10, 0, 0, 2]))"
  "\<not> isPreferred [exampleNet] (AAAA exampleHeader (Some [32, 1, 13, 184, 0, 0, 0, 0, 0, 0, 0, 0, 0, 0, 0, 1]))"
  "\<not> isPreferred [exampleNet] (A exampleHeader None)"
  "\<not> isPreferred [exampleNet] (OtherRR exampleHeader d)"
  by (simp_all add: isPreferred_def exampleNet_def Contains_def networkNumberAndMask_def To4_def)


text \<open>
  A response that is to be reordered but has an empty question section makes the debug
  line at the end of \<^verbatim>\<open>ServeDNS\<close> index an empty slice, after the instruments were
  updated and before anything is written.
\<close>

lemma ServeDNS_empty_question:
  assumes "NextOrFailure (Next e) req = \<lparr>nrcode = rc, nerr = None, nmsg = Some msg\<rparr>"
    and "Rcode msg = RcodeSuccess"
    and "2 \<le> length (Answer msg)"
    and "Question msg = []"
    and "Zones e (currentAvailabilityZoneId e) = Some z"
    and "\<exists>rr \<in> set (Answer msg). isPreferred (CIDRs z) rr"
  shows "ServeDNS e server elapsed w req mx =
           Inl (IndexOutOfRange,
                Add server (length (filter (isPreferred (CIDRs z)) (Answer msg)))
                  (Inc server (Observe server elapsed mx)))"
proof -
  have "classify e (Answer msg) [] [] =
          Inr (filter (isPreferred (CIDRs z)) (Answer msg),
               filter (\<lambda>rr. \<not> isPreferred (CIDRs z) rr) (Answer msg))"
    using classify_present [OF assms(5), of "Answer msg" "[]" "[]"] by simp
  moreover from assms(6) have "filter (isPreferred (CIDRs z)) (Answer msg) \<noteq> []"
    by (simp add: filter_empty_conv)
  ultimately show ?thesis
    using assms(1-4) by (simp add: ServeDNS_def)
qed
section \<open>The request path: claims\<close>

text \<open>
  Claim C9. \<^verbatim>\<open>ipMatchesCIDRs\<close> is a function from an address and a table to a boolean: on
  the empty table it is false; it is true exactly when some position of the table holds a
  range that contains the address; a range that contains the address makes it true
  whatever follows that range in the table; and it is false when no range contains the
  address.
\<close>

theorem ipMatchesCIDRs_first_match:
  "ipMatchesCIDRs ip [] = False
   \<and> (ipMatchesCIDRs ip cidrs \<longleftrightarrow> (\<exists>i < length cidrs. Contains (cidrs ! i) ip))
   \<and> (Contains c ip \<longrightarrow> ipMatchesCIDRs ip (before @ c # after))
   \<and> ((\<forall>c \<in> set cidrs. \<not> Contains c ip) \<longrightarrow> \<not> ipMatchesCIDRs ip cidrs)"
  by (auto simp: ipMatchesCIDRs_list_ex list_ex_iff in_set_conv_nth intro: nth_mem)

theorem ipMatchesCIDRs_first_match_witness:
  "Contains exampleNet [10, 0, 0, 1]
   \<and> \<not> Contains foreignNet [10, 0, 0, 1]
   \<and> ipMatchesCIDRs [10, 0, 0, 1] ([foreignNet] @ exampleNet # [foreignNet])
   \<and> \<not> ipMatchesCIDRs [10, 0, 0, 1] [foreignNet]"
  using ipMatchesCIDRs_first_match [of "[10, 0, 0, 1]" "[foreignNet]" exampleNet "[foreignNet]" "[foreignNet]"]
  by (simp add: exampleNet_def foreignNet_def Contains_def networkNumberAndMask_def To4_def)

text \<open>
  Claim C6, as amended. When the next plugin returned no error and wrote a message whose
  \<^verbatim>\<open>Rcode\<close> is not \<^verbatim>\<open>RcodeSuccess\<close>, \<^verbatim>\<open>ServeDNS\<close> hands exactly that message to the response
  writer, leaves the three instruments as they were, does not panic, and returns no error
  other than the one the writer itself reports; this holds for every plugin value, also one
  without a table for its zone, since the answers are not classified. When the next plugin
  returned an error, \<^verbatim>\<open>ServeDNS\<close> returns that code and that error at once: it writes
  nothing, whatever the next plugin wrote, and touches no instrument.
\<close>

theorem ServeDNS_failure_passthrough:
  "(NextOrFailure (Next e) req = \<lparr>nrcode = rc, nerr = None, nmsg = Some msg\<rparr>
      \<and> Rcode msg \<noteq> RcodeSuccess \<longrightarrow>
      ServeDNS e server elapsed w req mx =
        Inr \<lparr>rcode = (if w msg = None then RcodeSuccess else RcodeServerFailure),
             err = w msg, written = Some msg, metrics = mx\<rparr>)
   \<and> (NextOrFailure (Next e) req = \<lparr>nrcode = rc, nerr = Some er, nmsg = m\<rparr> \<longrightarrow>
      ServeDNS e server elapsed w req mx =
        Inr \<lparr>rcode = rc, err = Some er, written = None, metrics = mx\<rparr>)"
  by (simp add: ServeDNS_def writeFinalResponse_def split: option.splits)

theorem ServeDNS_failure_passthrough_witness:
  "ServeDNS (examplePlugin (reply 3 mixedAnswers)) ''dns://:53'' 7 okWriter exampleRequest noMetrics =
     Inr \<lparr>rcode = RcodeSuccess, err = None, written = Some (reply 3 mixedAnswers), metrics = noMetrics\<rparr>
   \<and> ServeDNS (erroringPlugin (reply 3 mixedAnswers)) ''dns://:53'' 7 okWriter exampleRequest noMetrics =
     Inr \<lparr>rcode = RcodeSuccess, err = Some (Error ''backend failed''), written = None,
          metrics = noMetrics\<rparr>"
  using ServeDNS_failure_passthrough [where e = "examplePlugin (reply 3 mixedAnswers)"
      and req = exampleRequest and rc = RcodeSuccess and msg = "reply 3 mixedAnswers"
      and server = "''dns://:53''" and elapsed = 7 and w = okWriter and mx = noMetrics]
    ServeDNS_failure_passthrough [where e = "erroringPlugin (reply 3 mixedAnswers)"
      and req = exampleRequest and rc = RcodeSuccess and er = "Error ''backend failed''"
      and m = "Some (reply 3 mixedAnswers)"
      and server = "''dns://:53''" and elapsed = 7 and w = okWriter and mx = noMetrics]
  by (simp add: examplePlugin_def erroringPlugin_def NextOrFailure_def mockHandler_def
      erroringHandler_def reply_def RcodeSuccess_def okWriter_def)

text \<open>
  The claim as stated fails when the next plugin writes a response with a failure code
  and returns an error: the response reaches \<^verbatim>\<open>pw.msg\<close>, but \<^verbatim>\<open>ServeDNS\<close> returns on the
  error before it looks at the message, and the response is not passed on.
\<close>

theorem failure_response_with_error_dropped:
  "nmsg (NextOrFailure (Next (erroringPlugin (reply 2 mixedAnswers))) exampleRequest)
     = Some (reply 2 mixedAnswers)
   \<and> Rcode (reply 2 mixedAnswers) \<noteq> RcodeSuccess
   \<and> ServeDNS (erroringPlugin (reply 2 mixedAnswers)) ''dns://:53'' 7 okWriter exampleRequest noMetrics =
       Inr \<lparr>rcode = RcodeSuccess, err = Some (Error ''backend failed''), written = None,
            metrics = noMetrics\<rparr>"
  by (simp add: ServeDNS_def erroringPlugin_def NextOrFailure_def erroringHandler_def reply_def
      RcodeSuccess_def)

text \<open>
  Claim C1, as amended. For a successful response with two or more answers none of which
  is preferred, \<^verbatim>\<open>ServeDNS\<close> writes the message it received and increments neither
  counter, but it does record one observation into the latency histogram: the call to
  \<^verbatim>\<open>Observe\<close> follows the loop and precedes the test for an empty \<^verbatim>\<open>preferredAnswers\<close>.
\<close>

theorem ServeDNS_no_preferred:
  assumes "NextOrFailure (Next e) req = \<lparr>nrcode = rc, nerr = None, nmsg = Some msg\<rparr>"
    and "Rcode msg = RcodeSuccess"
    and "2 \<le> length (Answer msg)"
    and "Zones e (currentAvailabilityZoneId e) = Some z"
    and "\<forall>rr \<in> set (Answer msg). \<not> isPreferred (CIDRs z) rr"
  shows "\<exists>res. ServeDNS e server elapsed w req mx = Inr res
           \<and> written res = Some msg
           \<and> metrics res = Observe server elapsed mx
           \<and> reorderedQueriesCount (metrics res) = reorderedQueriesCount mx
           \<and> reorderCount (metrics res) = reorderCount mx
           \<and> reorderLatency (metrics res) server = reorderLatency mx server @ [elapsed]
           \<and> (\<forall>s. s \<noteq> server \<longrightarrow> reorderLatency (metrics res) s = reorderLatency mx s)"
proof -
  from assms(5) have "filter (isPreferred (CIDRs z)) (Answer msg) = []"
    by (simp add: filter_empty_conv)
  moreover from assms(5) have "filter (\<lambda>rr. \<not> isPreferred (CIDRs z) rr) (Answer msg) = Answer msg"
    by (simp add: filter_id_conv)
  ultimately have "classify e (Answer msg) [] [] = Inr ([], Answer msg)"
    using classify_present [OF assms(4), of "Answer msg" "[]" "[]"] by simp
  with assms(1-3) show ?thesis
    by (simp add: ServeDNS_def writeFinalResponse_def Observe_def split: option.splits)
qed

theorem ServeDNS_no_preferred_witness:
  "\<exists>res. ServeDNS (examplePlugin (reply 0 foreignAnswers)) ''dns://:53'' 7 okWriter exampleRequest noMetrics = Inr res
     \<and> written res = Some (reply 0 foreignAnswers)
     \<and> reorderedQueriesCount (metrics res) = reorderedQueriesCount noMetrics
     \<and> reorderCount (metrics res) = reorderCount noMetrics
     \<and> reorderLatency (metrics res) ''dns://:53'' = [7]"
proof -
  have h2: "Rcode (reply 0 foreignAnswers) = RcodeSuccess"
    and h3: "2 \<le> length (Answer (reply 0 foreignAnswers))"
    and h5: "\<forall>rr \<in> set (Answer (reply 0 foreignAnswers)). \<not> isPreferred (CIDRs \<lparr>CIDRs = [exampleNet]\<rparr>) rr"
    by (simp_all add: reply_def foreignAnswers_def RcodeSuccess_def example_preferred)
  show ?thesis
    using ServeDNS_no_preferred [OF example_next h2 h3 example_zone h5,
        where req = exampleRequest and server = "''dns://:53''" and elapsed = 7 and w = okWriter
          and mx = noMetrics]
    by (auto simp: noMetrics_def)
qed

text \<open>
  The claim as stated fails on the answers \<^verbatim>\<open>198.51.100.1\<close>, \<^verbatim>\<open>198.51.100.2\<close> of the
  package's test case \<^verbatim>\<open>multi-no-match\<close>: the histogram, empty before the call, holds one
  observation after it.
\<close>

theorem no_preferred_observes_latency:
  "ServeDNS (examplePlugin (reply 0 foreignAnswers)) ''dns://:53'' 7 okWriter exampleRequest noMetrics =
     Inr \<lparr>rcode = RcodeSuccess, err = None, written = Some (reply 0 foreignAnswers),
          metrics = Observe ''dns://:53'' 7 noMetrics\<rparr>
   \<and> reorderLatency noMetrics ''dns://:53'' = []
   \<and> reorderLatency (Observe ''dns://:53'' 7 noMetrics) ''dns://:53'' = [7]"
proof -
  have "classify (examplePlugin (reply 0 foreignAnswers)) foreignAnswers [] [] = Inr ([], foreignAnswers)"
    using classify_present [OF example_zone, of "reply 0 foreignAnswers" foreignAnswers "[]" "[]"]
    by (simp add: foreignAnswers_def example_preferred)
  moreover have "length foreignAnswers = 2"
    by (simp add: foreignAnswers_def)
  ultimately show ?thesis
    by (simp add: ServeDNS_def example_next reply_def RcodeSuccess_def
        writeFinalResponse_def okWriter_def Observe_def noMetrics_def)
qed

text \<open>
  The stable partition. For a successful response that carries a question and has at
  least one preferred answer, the answer list that \<^verbatim>\<open>ServeDNS\<close> writes is the preferred
  answers in their input order followed by the other answers in their input order; it is
  a permutation of the input; in it every preferred answer stands before every other
  answer. An A or AAAA record is preferred exactly when its address lies in a range of the
  table; a record of another type, or one whose address is nil, never is. The rest of the
  message is unchanged.
\<close>

lemma ServeDNS_stable_partition:
  assumes "NextOrFailure (Next e) req = \<lparr>nrcode = rc, nerr = None, nmsg = Some msg\<rparr>"
    and "Rcode msg = RcodeSuccess"
    and "Question msg \<noteq> []"
    and "Zones e (currentAvailabilityZoneId e) = Some z"
    and "\<exists>rr \<in> set (Answer msg). isPreferred (CIDRs z) rr"
  shows "\<exists>res out. ServeDNS e server elapsed w req mx = Inr res
           \<and> written res = Some (msg\<lparr>Answer := out\<rparr>)
           \<and> out = filter (isPreferred (CIDRs z)) (Answer msg)
                     @ filter (\<lambda>rr. \<not> isPreferred (CIDRs z) rr) (Answer msg)
           \<and> mset out = mset (Answer msg)
           \<and> (\<forall>i j. i < length out \<and> j < length out
                 \<and> isPreferred (CIDRs z) (out ! i)
                 \<and> \<not> isPreferred (CIDRs z) (out ! j) \<longrightarrow> i < j)
           \<and> (\<forall>h ip. isPreferred (CIDRs z) (A h (Some ip)) = ipMatchesCIDRs ip (CIDRs z)
                 \<and> isPreferred (CIDRs z) (AAAA h (Some ip)) = ipMatchesCIDRs ip (CIDRs z))
           \<and> (\<forall>h d. \<not> isPreferred (CIDRs z) (A h None) \<and> \<not> isPreferred (CIDRs z) (AAAA h None)
                 \<and> \<not> isPreferred (CIDRs z) (OtherRR h d))"
proof -
  let ?P = "isPreferred (CIDRs z)"
  let ?ps = "filter ?P (Answer msg)" and ?os = "filter (\<lambda>rr. \<not> ?P rr) (Answer msg)"
  have cl: "classify e (Answer msg) [] [] = Inr (?ps, ?os)"
    using classify_present [OF assms(4), of "Answer msg" "[]" "[]"] by simp
  from assms(5) have ne: "?ps \<noteq> []"
    by (simp add: filter_empty_conv)
  have order: "\<forall>i j. i < length (?ps @ ?os) \<and> j < length (?ps @ ?os)
                 \<and> ?P ((?ps @ ?os) ! i) \<and> \<not> ?P ((?ps @ ?os) ! j) \<longrightarrow> i < j"
    using stable_partition_order [of _ ?P "Answer msg"] by blast
  have none: "(\<forall>h ip. ?P (A h (Some ip)) = ipMatchesCIDRs ip (CIDRs z)
                 \<and> ?P (AAAA h (Some ip)) = ipMatchesCIDRs ip (CIDRs z))
           \<and> (\<forall>h d. \<not> ?P (A h None) \<and> \<not> ?P (AAAA h None) \<and> \<not> ?P (OtherRR h d))"
    by (simp add: isPreferred_def)
  show ?thesis
  proof (cases "length (Answer msg) \<le> 1")
    case True
    with ne obtain a where a: "Answer msg = [a]"
      by (cases "Answer msg") auto
    with ne have pa: "?P a" by (auto split: if_splits)
    have res: "ServeDNS e server elapsed w req mx = Inr (writeFinalResponse w msg mx)"
      using assms(1,2) True by (simp add: ServeDNS_def)
    have same: "Answer msg = ?ps @ ?os"
      using a pa by simp
    then have "msg\<lparr>Answer := ?ps @ ?os\<rparr> = msg"
      by (simp flip: same)
    then have wr: "written (writeFinalResponse w msg mx) = Some (msg\<lparr>Answer := ?ps @ ?os\<rparr>)"
      by (simp add: writeFinalResponse_def split: option.splits)
    show ?thesis
      using res wr order none stable_partition_mset [of ?P "Answer msg"]
      by (metis (no_types, lifting))
  next
    case False
    from assms(3) obtain q qs where q: "Question msg = q # qs"
      by (cases "Question msg") auto
    let ?out = "msg\<lparr>Answer := ?ps @ ?os\<rparr>"
    let ?mx = "Add server (length ?ps) (Inc server (Observe server elapsed mx))"
    have res: "ServeDNS e server elapsed w req mx = Inr (writeFinalResponse w ?out ?mx)"
      using assms(1,2) False cl ne q by (simp add: ServeDNS_def)
    have wr: "written (writeFinalResponse w ?out ?mx) = Some ?out"
      by (simp add: writeFinalResponse_def split: option.splits)
    show ?thesis
      using res wr order none stable_partition_mset [of ?P "Answer msg"]
      by (metis (no_types, lifting))
  qed
qed

lemma ServeDNS_stable_partition_example:
  "\<exists>res. ServeDNS (examplePlugin (reply 0 variedAnswers)) ''dns://:53'' 7 okWriter exampleRequest noMetrics = Inr res
     \<and> written res = Some (reply 0 variedReordered)"
proof -
  have h2: "Rcode (reply 0 variedAnswers) = RcodeSuccess"
    and h3: "Question (reply 0 variedAnswers) \<noteq> []"
    and h5: "\<exists>rr \<in> set (Answer (reply 0 variedAnswers)). isPreferred (CIDRs \<lparr>CIDRs = [exampleNet]\<rparr>) rr"
    by (simp_all add: reply_def variedAnswers_def RcodeSuccess_def example_preferred)
  have "filter (isPreferred [exampleNet]) variedAnswers @ filter (\<lambda>rr. \<not> isPreferred [exampleNet] rr) variedAnswers
          = variedReordered"
    by (simp add: variedAnswers_def variedReordered_def example_preferred)
  then show ?thesis
    using ServeDNS_stable_partition [OF example_next h2 h3 example_zone h5,
        where req = exampleRequest and server = "''dns://:53''" and elapsed = 7 and w = okWriter
          and mx = noMetrics]
    by (auto simp: reply_def)
qed

text \<open>
  Claim C3. The claim holds for every response that carries a question, by the stable
  partition above. It fails on a successful response with an empty question section:
  for the table \<^verbatim>\<open>10.0.0.0/24\<close> and the answers \<^verbatim>\<open>10.0.0.1\<close>, \<^verbatim>\<open>192.168.1.1\<close>, \<^verbatim>\<open>10.0.0.2\<close>
  the loop finds two preferred answers, the latency is observed and both counters are
  raised, and then the arguments of the closing debug line index the empty
  \<^verbatim>\<open>pw.msg.Question\<close>: the call panics before \<^verbatim>\<open>writeFinalResponse\<close>, and no answer list
  is returned.
\<close>

theorem reorder_panics_without_question:
  "ServeDNS (examplePlugin (questionless mixedAnswers)) ''dns://:53'' 7 okWriter exampleRequest noMetrics =
     Inl (IndexOutOfRange,
          Add ''dns://:53'' 2 (Inc ''dns://:53'' (Observe ''dns://:53'' 7 noMetrics)))"
proof -
  have "classify (examplePlugin (questionless mixedAnswers)) mixedAnswers [] [] =
          Inr ([A exampleHeader (Some [10, 0, 0, 1]), A exampleHeader (Some [10, 0, 0, 2])],
               [A exampleHeader (Some [192, 168, 1, 1])])"
    using classify_present [OF example_zone, of "questionless mixedAnswers" mixedAnswers "[]" "[]"]
    by (simp add: mixedAnswers_def example_preferred)
  moreover have "length mixedAnswers = 3"
    by (simp add: mixedAnswers_def)
  ultimately show ?thesis
    by (simp add: ServeDNS_def example_next questionless_def RcodeSuccess_def numeral_2_eq_2)
qed

text \<open>
  Claim C4. For a successful response with two or more answers and at least one preferred
  answer, the instruments after the call are those before it with exactly one
  \<^verbatim>\<open>Observe\<close>, one \<^verbatim>\<open>Inc\<close> and one \<^verbatim>\<open>Add\<close> of the number of preferred answers, under the
  label of the serving instance; every other label is left alone. The three updates have
  run whether the response carries a question, and the reordered message is then written,
  or not, and the call then panics. The instance that follows is the example of the
  claim: zone range \<^verbatim>\<open>10.0.0.0/24\<close>, answers \<^verbatim>\<open>10.0.0.1\<close>, \<^verbatim>\<open>192.168.1.1\<close>, \<^verbatim>\<open>10.0.0.2\<close>.
\<close>

theorem ServeDNS_reorder_metrics:
  assumes "NextOrFailure (Next e) req = \<lparr>nrcode = rc, nerr = None, nmsg = Some msg\<rparr>"
    and "Rcode msg = RcodeSuccess"
    and "2 \<le> length (Answer msg)"
    and "Zones e (currentAvailabilityZoneId e) = Some z"
    and "\<exists>rr \<in> set (Answer msg). isPreferred (CIDRs z) rr"
  shows "metricsAfter (ServeDNS e server elapsed w req mx) =
           Add server (length (filter (isPreferred (CIDRs z)) (Answer msg)))
             (Inc server (Observe server elapsed mx))
         \<and> reorderedQueriesCount (metricsAfter (ServeDNS e server elapsed w req mx)) server
             = reorderedQueriesCount mx server + 1
         \<and> reorderCount (metricsAfter (ServeDNS e server elapsed w req mx)) server
             = reorderCount mx server + length (filter (isPreferred (CIDRs z)) (Answer msg))
         \<and> reorderLatency (metricsAfter (ServeDNS e server elapsed w req mx)) server
             = reorderLatency mx server @ [elapsed]
         \<and> (\<forall>s. s \<noteq> server \<longrightarrow>
               reorderedQueriesCount (metricsAfter (ServeDNS e server elapsed w req mx)) s
                 = reorderedQueriesCount mx s
               \<and> reorderCount (metricsAfter (ServeDNS e server elapsed w req mx)) s
                 = reorderCount mx s
               \<and> reorderLatency (metricsAfter (ServeDNS e server elapsed w req mx)) s
                 = reorderLatency mx s)
         \<and> (Question msg \<noteq> [] \<longrightarrow>
               (\<exists>res. ServeDNS e server elapsed w req mx = Inr res
                  \<and> written res =
                      Some (msg\<lparr>Answer := filter (isPreferred (CIDRs z)) (Answer msg)
                              @ filter (\<lambda>rr. \<not> isPreferred (CIDRs z) rr) (Answer msg)\<rparr>)))
         \<and> (Question msg = [] \<longrightarrow>
               ServeDNS e server elapsed w req mx =
                 Inl (IndexOutOfRange,
                      Add server (length (filter (isPreferred (CIDRs z)) (Answer msg)))
                        (Inc server (Observe server elapsed mx))))"
proof -
  let ?P = "isPreferred (CIDRs z)"
  let ?ps = "filter ?P (Answer msg)" and ?os = "filter (\<lambda>rr. \<not> ?P rr) (Answer msg)"
  let ?out = "msg\<lparr>Answer := ?ps @ ?os\<rparr>"
  let ?mx = "Add server (length ?ps) (Inc server (Observe server elapsed mx))"
  let ?call = "ServeDNS e server elapsed w req mx"
  have cl: "classify e (Answer msg) [] [] = Inr (?ps, ?os)"
    using classify_present [OF assms(4), of "Answer msg" "[]" "[]"] by simp
  from assms(5) have ne: "?ps \<noteq> []"
    by (simp add: filter_empty_conv)
  have panics: "Question msg = [] \<longrightarrow> ?call = Inl (IndexOutOfRange, ?mx)"
    using assms(1-3) cl ne by (simp add: ServeDNS_def)
  have returns: "Question msg \<noteq> [] \<longrightarrow> ?call = Inr (writeFinalResponse w ?out ?mx)"
    using assms(1-3) cl ne by (cases "Question msg") (simp_all add: ServeDNS_def)
  have wr: "written (writeFinalResponse w ?out ?mx) = Some ?out"
    and mt: "metrics (writeFinalResponse w ?out ?mx) = ?mx"
    by (simp_all add: writeFinalResponse_def split: option.splits)
  have after: "metricsAfter ?call = ?mx"
    using panics returns mt by (cases "Question msg = []") (simp_all add: metricsAfter_def)
  have c1: "reorderedQueriesCount ?mx server = reorderedQueriesCount mx server + 1"
    and c2: "reorderCount ?mx server = reorderCount mx server + length ?ps"
    and c3: "reorderLatency ?mx server = reorderLatency mx server @ [elapsed]"
    and c4: "\<forall>s. s \<noteq> server \<longrightarrow>
                 reorderedQueriesCount ?mx s = reorderedQueriesCount mx s
                 \<and> reorderCount ?mx s = reorderCount mx s
                 \<and> reorderLatency ?mx s = reorderLatency mx s"
    by (simp_all add: Add_def Inc_def Observe_def)
  have written: "Question msg \<noteq> [] \<longrightarrow> (\<exists>res. ?call = Inr res \<and> written res = Some ?out)"
    using returns wr by simp
  show ?thesis
    unfolding after using c1 c2 c3 c4 written panics by blast
qed

theorem ServeDNS_reorder_metrics_witness:
  "(\<exists>res. ServeDNS (examplePlugin (reply 0 mixedAnswers)) ''dns://:53'' 7 okWriter exampleRequest noMetrics = Inr res
      \<and> written res = Some (reply 0 reorderedAnswers)
      \<and> reorderedQueriesCount (metrics res) ''dns://:53'' = 1
      \<and> reorderCount (metrics res) ''dns://:53'' = 2
      \<and> reorderLatency (metrics res) ''dns://:53'' = [7])
   \<and> metricsAfter (ServeDNS (examplePlugin (questionless mixedAnswers)) ''dns://:53'' 7 okWriter
        exampleRequest noMetrics)
       = Add ''dns://:53'' 2 (Inc ''dns://:53'' (Observe ''dns://:53'' 7 noMetrics))"
proof -
  have h2: "Rcode (reply 0 mixedAnswers) = RcodeSuccess" "Rcode (questionless mixedAnswers) = RcodeSuccess"
    and h3: "2 \<le> length (Answer (reply 0 mixedAnswers))" "2 \<le> length (Answer (questionless mixedAnswers))"
    and h4: "Question (reply 0 mixedAnswers) \<noteq> []"
    and h6: "\<exists>rr \<in> set (Answer (reply 0 mixedAnswers)). isPreferred (CIDRs \<lparr>CIDRs = [exampleNet]\<rparr>) rr"
      "\<exists>rr \<in> set (Answer (questionless mixedAnswers)). isPreferred (CIDRs \<lparr>CIDRs = [exampleNet]\<rparr>) rr"
    by (simp_all add: reply_def questionless_def mixedAnswers_def RcodeSuccess_def example_preferred)
  have f: "filter (isPreferred [exampleNet]) mixedAnswers = [A exampleHeader (Some [10, 0, 0, 1]), A exampleHeader (Some [10, 0, 0, 2])]"
    "filter (\<lambda>rr. \<not> isPreferred [exampleNet] rr) mixedAnswers = [A exampleHeader (Some [192, 168, 1, 1])]"
    by (simp_all add: mixedAnswers_def example_preferred)
  note inst1 = ServeDNS_reorder_metrics [OF example_next h2(1) h3(1) example_zone h6(1),
        where req = exampleRequest and server = "''dns://:53''" and elapsed = 7 and w = okWriter
          and mx = noMetrics]
  note inst2 = ServeDNS_reorder_metrics [OF example_next h2(2) h3(2) example_zone h6(2),
        where req = exampleRequest and server = "''dns://:53''" and elapsed = 7 and w = okWriter
          and mx = noMetrics]
  from inst1 h4 obtain res where
    r: "ServeDNS (examplePlugin (reply 0 mixedAnswers)) ''dns://:53'' 7 okWriter exampleRequest noMetrics = Inr res"
    and wr: "written res =
      Some ((reply 0 mixedAnswers)\<lparr>Answer := filter (isPreferred (CIDRs \<lparr>CIDRs = [exampleNet]\<rparr>))
                (Answer (reply 0 mixedAnswers))
              @ filter (\<lambda>rr. \<not> isPreferred (CIDRs \<lparr>CIDRs = [exampleNet]\<rparr>) rr)
                  (Answer (reply 0 mixedAnswers))\<rparr>)"
    by blast
  from wr have wr': "written res = Some (reply 0 reorderedAnswers)"
    by (simp add: reply_def f reorderedAnswers_def)
  from r have m: "metricsAfter (ServeDNS (examplePlugin (reply 0 mixedAnswers)) ''dns://:53'' 7 okWriter
      exampleRequest noMetrics) = metrics res"
    by (simp add: metricsAfter_def)
  from inst1 have "reorderedQueriesCount (metrics res) ''dns://:53''
        = reorderedQueriesCount noMetrics ''dns://:53'' + 1
      \<and> reorderCount (metrics res) ''dns://:53''
        = reorderCount noMetrics ''dns://:53''
          + length (filter (isPreferred (CIDRs \<lparr>CIDRs = [exampleNet]\<rparr>)) (Answer (reply 0 mixedAnswers)))
      \<and> reorderLatency (metrics res) ''dns://:53'' = reorderLatency noMetrics ''dns://:53'' @ [7]"
    unfolding m by blast
  then have "reorderedQueriesCount (metrics res) ''dns://:53'' = 1
      \<and> reorderCount (metrics res) ''dns://:53'' = 2
      \<and> reorderLatency (metrics res) ''dns://:53'' = [7]"
    by (simp add: reply_def f noMetrics_def)
  with r wr' have c1: "\<exists>res. ServeDNS (examplePlugin (reply 0 mixedAnswers)) ''dns://:53'' 7 okWriter exampleRequest noMetrics = Inr res
      \<and> written res = Some (reply 0 reorderedAnswers)
      \<and> reorderedQueriesCount (metrics res) ''dns://:53'' = 1
      \<and> reorderCount (metrics res) ''dns://:53'' = 2
      \<and> reorderLatency (metrics res) ''dns://:53'' = [7]"
    by blast
  have n: "length (filter (isPreferred (CIDRs \<lparr>CIDRs = [exampleNet]\<rparr>))
             (Answer (questionless mixedAnswers))) = 2"
    by (simp add: questionless_def f)
  from inst2 have "metricsAfter (ServeDNS (examplePlugin (questionless mixedAnswers)) ''dns://:53'' 7 okWriter
        exampleRequest noMetrics)
       = Add ''dns://:53'' (length (filter (isPreferred (CIDRs \<lparr>CIDRs = [exampleNet]\<rparr>))
             (Answer (questionless mixedAnswers))))
           (Inc ''dns://:53'' (Observe ''dns://:53'' 7 noMetrics))"
    by blast
  then have c2: "metricsAfter (ServeDNS (examplePlugin (questionless mixedAnswers)) ''dns://:53'' 7 okWriter
        exampleRequest noMetrics)
       = Add ''dns://:53'' 2 (Inc ''dns://:53'' (Observe ''dns://:53'' 7 noMetrics))"
    unfolding n .
  from c1 c2 show ?thesis ..
qed

text \<open>
  Claim C5. Reordering is idempotent. For the loop: classifying the concatenation of the
  two lists that the loop produced for an answer list produces the same two lists. For
  \<^verbatim>\<open>ServeDNS\<close> as a whole: when it has written a message, a plugin with the same table
  that receives this message from its next handler writes the same message again.
\<close>

theorem ServeDNS_idempotent:
  "(classify e rrs [] [] = Inr (ps, os) \<longrightarrow> classify e (ps @ os) [] [] = Inr (ps, os))
   \<and> (ServeDNS e server elapsed w req mx = Inr res \<and> written res = Some out
        \<and> NextOrFailure (Next e') req' = \<lparr>nrcode = rc', nerr = None, nmsg = Some out\<rparr>
        \<and> Zones e' = Zones e \<and> currentAvailabilityZoneId e' = currentAvailabilityZoneId e
       \<longrightarrow> (\<exists>res2. ServeDNS e' server' elapsed' w' req' mx' = Inr res2 \<and> written res2 = Some out))"
proof (intro conjI impI)
  assume "classify e rrs [] [] = Inr (ps, os)"
  then show "classify e (ps @ os) [] [] = Inr (ps, os)"
    using classify_again by blast
next
  assume a: "ServeDNS e server elapsed w req mx = Inr res \<and> written res = Some out
        \<and> NextOrFailure (Next e') req' = \<lparr>nrcode = rc', nerr = None, nmsg = Some out\<rparr>
        \<and> Zones e' = Zones e \<and> currentAvailabilityZoneId e' = currentAvailabilityZoneId e"
  then have first: "ServeDNS e server elapsed w req mx = Inr res"
    and out: "written res = Some out"
    and again: "NextOrFailure (Next e') req' = \<lparr>nrcode = rc', nerr = None, nmsg = Some out\<rparr>"
    and same: "Zones e' = Zones e" "currentAvailabilityZoneId e' = currentAvailabilityZoneId e"
    by simp_all
  note cong = classify_cong [OF same]
  from ServeDNS_written_cases [OF first out] obtain rc msg where
    nx: "NextOrFailure (Next e) req = \<lparr>nrcode = rc, nerr = None, nmsg = Some msg\<rparr>"
    and cases: "(out = msg \<and> (Rcode msg \<noteq> RcodeSuccess \<or> length (Answer msg) \<le> 1
                              \<or> (\<exists>os. classify e (Answer msg) [] [] = Inr ([], os))))
              \<or> (Rcode msg = RcodeSuccess \<and> 2 \<le> length (Answer msg) \<and> Question msg \<noteq> []
                  \<and> (\<exists>ps os. ps \<noteq> [] \<and> classify e (Answer msg) [] [] = Inr (ps, os)
                        \<and> out = msg\<lparr>Answer := ps @ os\<rparr>))"
    by blast
  from cases show "\<exists>res2. ServeDNS e' server' elapsed' w' req' mx' = Inr res2 \<and> written res2 = Some out"
  proof
    assume "out = msg \<and> (Rcode msg \<noteq> RcodeSuccess \<or> length (Answer msg) \<le> 1
                              \<or> (\<exists>os. classify e (Answer msg) [] [] = Inr ([], os)))"
    then show ?thesis
      using again cong by (auto simp: ServeDNS_def written_writeFinalResponse split: if_splits)
  next
    assume b: "Rcode msg = RcodeSuccess \<and> 2 \<le> length (Answer msg) \<and> Question msg \<noteq> []
                  \<and> (\<exists>ps os. ps \<noteq> [] \<and> classify e (Answer msg) [] [] = Inr (ps, os)
                        \<and> out = msg\<lparr>Answer := ps @ os\<rparr>)"
    then obtain ps' os' q qs where ne: "ps' \<noteq> []"
      and cl: "classify e (Answer msg) [] [] = Inr (ps', os')"
      and o: "out = msg\<lparr>Answer := ps' @ os'\<rparr>"
      and q: "Question msg = q # qs"
      by (cases "Question msg") auto
    from classify_again [OF cl] have cl2: "classify e' (Answer out) [] [] = Inr (ps', os')"
      and len: "length (Answer out) = length (Answer msg)"
      using o cong by simp_all
    from b o have rc: "Rcode out = RcodeSuccess" by simp
    from q o have q2: "Question out = q # qs" by simp
    have "out\<lparr>Answer := ps' @ os'\<rparr> = out" using o by simp
    then show ?thesis
      using again rc len b cl2 ne q2 by (simp add: ServeDNS_def written_writeFinalResponse)
  qed
qed

theorem ServeDNS_idempotent_witness:
  "classify (examplePlugin (reply 0 mixedAnswers)) reorderedAnswers [] [] =
     Inr ([A exampleHeader (Some [10, 0, 0, 1]), A exampleHeader (Some [10, 0, 0, 2])],
          [A exampleHeader (Some [192, 168, 1, 1])])
   \<and> (\<exists>res2. ServeDNS (examplePlugin (reply 0 reorderedAnswers)) ''dns://:53'' 9 okWriter exampleRequest
            (Add ''dns://:53'' 2 (Inc ''dns://:53'' (Observe ''dns://:53'' 7 noMetrics))) = Inr res2
     \<and> written res2 = Some (reply 0 reorderedAnswers))"
proof -
  let ?mx = "Add ''dns://:53'' 2 (Inc ''dns://:53'' (Observe ''dns://:53'' 7 noMetrics))"
  let ?res1 = "\<lparr>rcode = RcodeSuccess, err = None, written = Some (reply 0 reorderedAnswers), metrics = ?mx\<rparr>"
  let ?ps = "[A exampleHeader (Some [10, 0, 0, 1]), A exampleHeader (Some [10, 0, 0, 2])]"
  let ?os = "[A exampleHeader (Some [192, 168, 1, 1])]"
  have cl: "classify (examplePlugin (reply 0 mixedAnswers)) mixedAnswers [] [] = Inr (?ps, ?os)"
    using classify_present [OF example_zone, of "reply 0 mixedAnswers" mixedAnswers "[]" "[]"]
    by (simp add: mixedAnswers_def example_preferred)
  moreover have "length mixedAnswers = 3"
    by (simp add: mixedAnswers_def)
  ultimately have first: "ServeDNS (examplePlugin (reply 0 mixedAnswers)) ''dns://:53'' 7 okWriter exampleRequest noMetrics = Inr ?res1"
    by (simp add: ServeDNS_def example_next reply_def RcodeSuccess_def reorderedAnswers_def
        writeFinalResponse_def okWriter_def numeral_2_eq_2)
  have out: "written ?res1 = Some (reply 0 reorderedAnswers)" by simp
  have same: "Zones (examplePlugin (reply 0 reorderedAnswers)) = Zones (examplePlugin (reply 0 mixedAnswers))"
    "currentAvailabilityZoneId (examplePlugin (reply 0 reorderedAnswers)) =
       currentAvailabilityZoneId (examplePlugin (reply 0 mixedAnswers))"
    by (simp_all add: examplePlugin_def)
  have app: "?ps @ ?os = reorderedAnswers"
    by (simp add: reorderedAnswers_def)
  note inst = ServeDNS_idempotent [where e = "examplePlugin (reply 0 mixedAnswers)" and rrs = mixedAnswers
      and ps = ?ps and os = ?os and server = "''dns://:53''" and elapsed = 7 and w = okWriter
      and req = exampleRequest and mx = noMetrics and res = ?res1 and out = "reply 0 reorderedAnswers"
      and e' = "examplePlugin (reply 0 reorderedAnswers)" and req' = exampleRequest
      and rc' = RcodeSuccess and server' = "''dns://:53''" and elapsed' = 9 and w' = okWriter
      and mx' = ?mx]
  from inst cl have "classify (examplePlugin (reply 0 mixedAnswers)) (?ps @ ?os) [] [] = Inr (?ps, ?os)"
    by blast
  then have c1: "classify (examplePlugin (reply 0 mixedAnswers)) reorderedAnswers [] [] = Inr (?ps, ?os)"
    unfolding app .
  from inst first out example_next [of "reply 0 reorderedAnswers" exampleRequest] same
  have c2: "\<exists>res2. ServeDNS (examplePlugin (reply 0 reorderedAnswers)) ''dns://:53'' 9 okWriter
              exampleRequest ?mx = Inr res2 \<and> written res2 = Some (reply 0 reorderedAnswers)"
    by blast
  from c1 c2 show ?thesis ..
qed

section \<open>Setup: auxiliary facts\<close>

lemma match_examples:
  "MatchString awsZoneIDPattern ''use1-az1''"
  "MatchString awsZoneIDPattern ''usw2-az2''"
  "\<not> MatchString awsZoneIDPattern ''my-invalid-zone''"
  by code_simp+

lemma trim_az: "trimSpaceASCII ''use1-az1\<newline>'' = ''use1-az1''"
  by (simp add: trimSpaceASCII_def isSpaceASCII_def)

lemma trim_region: "trimSpaceASCII ''us-east-1'' = ''us-east-1''"
  by (simp add: trimSpaceASCII_def isSpaceASCII_def)

lemma imds_un: "\<exists>e. getConfigFromIMDSv2 sdkUnreachable = Some (Inl e)"
  by (simp add: getConfigFromIMDSv2_def sdkUnreachable_def untilDeadline_def)

lemma inventory_blocks:
  "getSubnetsFromEC2 sdkInventoryUnreachable Background az region = None"
  by (simp add: getSubnetsFromEC2_def sdkInventoryUnreachable_def untilDeadline_def)



lemma Zone_update [simp]: "zone\<lparr>CIDRs := cs\<rparr> = \<lparr>CIDRs = cs\<rparr>"
  by (cases zone) simp

lemma addCIDR_eq: "addCIDR zoneName cidr zones = zones(zoneName \<mapsto> \<lparr>CIDRs = rangesOf zones zoneName @ [cidr]\<rparr>)"
  by (simp add: addCIDR_def rangesOf_def split: option.splits)

lemma validCIDRs_simps:
  "validCIDRs parse [] = []"
  "parse s = Inl e \<Longrightarrow> validCIDRs parse (s # rest) = validCIDRs parse rest"
  "parse s = Inr c \<Longrightarrow> validCIDRs parse (s # rest) = c # validCIDRs parse rest"
  by (simp_all add: validCIDRs_def)

lemma rangesOf_addCIDR: "rangesOf (addCIDR zoneName cidr zones) zoneName = rangesOf zones zoneName @ [cidr]"
  by (simp add: addCIDR_eq rangesOf_def)

lemma addCIDRArgs_eq:
  "addCIDRArgs parse zoneName cidrStrs zones =
     (if validCIDRs parse cidrStrs = [] then zones
      else zones(zoneName \<mapsto> \<lparr>CIDRs = rangesOf zones zoneName @ validCIDRs parse cidrStrs\<rparr>))"
proof (induction cidrStrs arbitrary: zones)
  case Nil
  then show ?case by (simp add: validCIDRs_simps)
next
  case (Cons s rest)
  show ?case
  proof (cases "parse s")
    case (Inl e)
    then show ?thesis
      using Cons.IH [of zones] by (simp add: validCIDRs_simps)
  next
    case (Inr c)
    have "addCIDRArgs parse zoneName (s # rest) zones =
            addCIDRArgs parse zoneName rest (addCIDR zoneName c zones)"
      by (simp add: Inr)
    also have "\<dots> = (if validCIDRs parse rest = [] then addCIDR zoneName c zones
                      else (addCIDR zoneName c zones)(zoneName \<mapsto>
                             \<lparr>CIDRs = (rangesOf zones zoneName @ [c]) @ validCIDRs parse rest\<rparr>))"
      by (simp only: Cons.IH rangesOf_addCIDR)
    also have "\<dots> = zones(zoneName \<mapsto>
                        \<lparr>CIDRs = rangesOf zones zoneName @ c # validCIDRs parse rest\<rparr>)"
      by (simp add: addCIDR_eq)
    finally show ?thesis
      using Inr by (simp add: validCIDRs_simps)
  qed
qed

lemma mergeStatement_other:
  "args = [] \<or> hd args \<noteq> cur \<Longrightarrow> mergeStatement parse cur args zones = zones"
  by (cases args) (auto simp: mergeStatement_def)

lemma parseCorefile_append:
  "parseCorefile parse cur (xs @ ys) zones = parseCorefile parse cur ys (parseCorefile parse cur xs zones)"
  by (induction xs arbitrary: zones) auto

lemma parseCorefile_other:
  "args = [] \<or> hd args \<noteq> cur \<Longrightarrow>
   parseCorefile parse cur (before @ args # after) zones = parseCorefile parse cur (before @ after) zones"
  by (simp add: parseCorefile_append mergeStatement_other)

lemma finish_other:
  assumes "args = [] \<or> hd args \<noteq> currentAvailabilityZoneId l"
  shows "finish d (before @ args # after) l = finish d (before @ after) l"
proof -
  have "parseCorefile (ParseCIDR d) (currentAvailabilityZoneId l) (before @ args # after) (Zones l) =
        parseCorefile (ParseCIDR d) (currentAvailabilityZoneId l) (before @ after) (Zones l)"
    using assms by (rule parseCorefile_other)
  then show ?thesis
    unfolding finish_def by (rule arg_cong)
qed




lemma handler_finish_cur:
  "currentAvailabilityZoneId (handler (finish d cf l)) = currentAvailabilityZoneId l"
  by (simp add: finish_def split: option.splits)




lemma setup_plugin_Some:
  assumes "setup_plugin d cf = Some (Inr res)"
  obtains imds l where "getConfigFromIMDSv2Func d = Some imds"
    and "discover d imds \<lparr>Next = None, Zones = Map.empty, currentAvailabilityZoneId = [],
                   HasSynced = False\<rparr> = Some (Inr l)"
    and "res = finish d cf (envFallback d l)"
  using assms by (auto simp: setup_plugin_def split: option.splits sum.splits)

lemma imds_one: "getConfigFromIMDSv2 sdkOneSubnet = Some (Inr (''use1-az1'', ''us-east-1''))"
  by (simp add: getConfigFromIMDSv2_def sdkOneSubnet_def trim_az trim_region match_examples
      del: MatchString.simps)

lemma inventory_one:
  "getSubnetsFromEC2 sdkOneSubnet ctx ''use1-az1'' ''us-east-1'' =
     Some (Inr [\<lparr>SubnetId = Some ''subnet-1'', CidrBlock = Some ''10.0.1.0/24'',
                 Ipv6CidrBlockAssociationSet = []\<rparr>])"
  by (simp add: getSubnetsFromEC2_def sdkOneSubnet_def)

lemma setup_discovered_example:
  "setup_plugin (production sdkOneSubnet testParseCIDR (envWith ''usw2-az2'')) [] =
     Some (Inr \<lparr>handler = \<lparr>Next = None,
                            Zones = [''use1-az1'' \<mapsto> \<lparr>CIDRs = [prefix24 10 0 1]\<rparr>],
                            currentAvailabilityZoneId = ''use1-az1'',
                            HasSynced = False\<rparr>,
                 installed = True\<rparr>)"
  by (simp add: setup_plugin_def production_def imds_one discover_def inventory_one
      addSubnetCIDR_def testParseCIDR_def addCIDR_def envFallback_def finish_def)

lemma ServeDNS_table_present:
  assumes "Zones e (currentAvailabilityZoneId e) = Some z"
  shows "ServeDNS e server elapsed w req mx \<noteq> Inl (NilPointerDereference, m)"
proof -
  have c: "classify e rrs [] [] =
             Inr (filter (isPreferred (CIDRs z)) rrs, filter (\<lambda>rr. \<not> isPreferred (CIDRs z) rr) rrs)"
    for rrs
    using classify_present [OF assms, of rrs "[]" "[]"] by simp
  show ?thesis
    by (auto simp: ServeDNS_def c split: option.splits list.splits if_splits)
qed

lemma ServeDNS_table_absent:
  assumes "Zones e (currentAvailabilityZoneId e) = None"
    and "NextOrFailure (Next e) req = \<lparr>nrcode = rc, nerr = None, nmsg = Some msg\<rparr>"
    and "Rcode msg = RcodeSuccess"
    and "2 \<le> length (Answer msg)"
  shows "ServeDNS e server elapsed w req mx =
           (if list_all (\<lambda>rr. extractRRIP rr = None) (Answer msg)
            then Inr (writeFinalResponse w msg (Observe server elapsed mx))
            else Inl (NilPointerDereference, mx))"
  using assms classify_absent [OF assms(1), of "Answer msg" "[]" "[]"]
  by (simp add: ServeDNS_def)

lemma finish_installed:
  assumes "installed (finish d cf l)"
  shows "\<exists>z. Zones (handler (finish d cf l)) (currentAvailabilityZoneId (handler (finish d cf l))) = Some z
           \<and> CIDRs z \<noteq> []"
  using assms by (auto simp: finish_def split: option.splits if_splits)


lemma bare_next:
  "NextOrFailure (Next (barePlugin msg)) req = \<lparr>nrcode = RcodeSuccess, nerr = None, nmsg = Some msg\<rparr>"
  by (simp add: barePlugin_def NextOrFailure_def mockHandler_def)

lemma bare_zone: "Zones (barePlugin msg) (currentAvailabilityZoneId (barePlugin msg)) = None"
  by (simp add: barePlugin_def)

lemma imds_reached: "getConfigFromIMDSv2 sdkInventoryUnreachable = Some (Inr (''use1-az1'', ''us-east-1''))"
  by (simp add: getConfigFromIMDSv2_def sdkInventoryUnreachable_def trim_az trim_region match_examples
      del: MatchString.simps)

lemma discover_Background:
  "discover (d\<lparr>getSubnetsFromEC2Func := \<lambda>ctx. getSubnetsFromEC2Func d Background\<rparr>) imds l = discover d imds l"
  by (simp add: discover_def split: sum.splits option.splits prod.splits)

lemma untouched_by_inventory:
  "getConfigFromIMDSv2Func (d\<lparr>getSubnetsFromEC2Func := f\<rparr>) = getConfigFromIMDSv2Func d"
  "envFallback (d\<lparr>getSubnetsFromEC2Func := f\<rparr>) l = envFallback d l"
  "finish (d\<lparr>getSubnetsFromEC2Func := f\<rparr>) cf l = finish d cf l"
  by (simp_all add: envFallback_def finish_def split: option.splits)

lemma setup_plugin_Background:
  "setup_plugin (d\<lparr>getSubnetsFromEC2Func := \<lambda>ctx. getSubnetsFromEC2Func d Background\<rparr>) cf = setup_plugin d cf"
  unfolding setup_plugin_def untouched_by_inventory discover_Background ..

lemma imds_bounded:
  "getConfigFromIMDSv2
     (sdk\<lparr>LoadDefaultConfig := \<lambda>ctx. LoadDefaultConfig sdk (WithTimeout Background imdsTimeout),
          GetMetadata := \<lambda>cfg ctx. GetMetadata sdk cfg (WithTimeout Background imdsTimeout)\<rparr>)
   = getConfigFromIMDSv2 sdk"
  by (simp add: getConfigFromIMDSv2_def split: option.splits sum.splits)

lemma imds_returns:
  assumes "\<forall>ctx region. deadline ctx \<noteq> None \<longrightarrow> LoadDefaultConfig sdk ctx region \<noteq> None"
    and "\<forall>cfg ctx path. deadline ctx \<noteq> None \<longrightarrow> GetMetadata sdk cfg ctx path \<noteq> None"
  shows "getConfigFromIMDSv2 sdk \<noteq> None"
proof -
  have d: "deadline (WithTimeout Background imdsTimeout) \<noteq> None" by simp
  from assms(1) d have 1: "LoadDefaultConfig sdk (WithTimeout Background imdsTimeout) None \<noteq> None"
    by blast
  from assms(2) d have 2: "\<forall>cfg path. GetMetadata sdk cfg (WithTimeout Background imdsTimeout) path \<noteq> None"
    by blast
  show ?thesis
  proof (cases "LoadDefaultConfig sdk (WithTimeout Background imdsTimeout) None")
    case None
    with 1 show ?thesis by simp
  next
    case (Some c)
    show ?thesis
    proof (cases c)
      case (Inl e)
      with Some show ?thesis by (simp add: getConfigFromIMDSv2_def)
    next
      case (Inr cfg)
      from 2 obtain a where a: "GetMetadata sdk cfg (WithTimeout Background imdsTimeout)
                                  ''placement/availability-zone-id'' = Some a"
        by blast
      from 2 obtain b where b: "GetMetadata sdk cfg (WithTimeout Background imdsTimeout)
                                  ''placement/region'' = Some b"
        by blast
      from Some Inr a b show ?thesis
        by (simp add: getConfigFromIMDSv2_def split: sum.splits)
    qed
  qed
qed

lemma inventory_forwards:
  "getSubnetsFromEC2
     (sdk\<lparr>LoadDefaultConfig := \<lambda>c. LoadDefaultConfig sdk ctx,
          DescribeSubnets := \<lambda>cfg c. DescribeSubnets sdk cfg ctx\<rparr>) ctx azID region
   = getSubnetsFromEC2 sdk ctx azID region"
  by (simp add: getSubnetsFromEC2_def split: option.splits sum.splits)

lemma setup_env_example:
  "setup_plugin (production sdkUnreachable testParseCIDR (envWith ''use1-az1''))
     [[''use1-az1'', ''192.168.1.0/24'', ''10.0.0.0/33'', ''172.16.0.0/16'']] =
     Some (Inr \<lparr>handler = \<lparr>Next = None,
                            Zones = [''use1-az1'' \<mapsto>
                              \<lparr>CIDRs = [prefix24 192 168 1,
                                        \<lparr>IP = [172, 16, 0, 0], Mask = [255, 255, 0, 0]\<rparr>]\<rparr>],
                            currentAvailabilityZoneId = ''use1-az1'',
                            HasSynced = False\<rparr>,
                 installed = True\<rparr>)"
proof -
  from imds_un obtain e where e: "getConfigFromIMDSv2 sdkUnreachable = Some (Inl e)"
    by blast
  show ?thesis
    by (simp add: setup_plugin_def production_def e discover_def envFallback_def envWith_def
        match_examples finish_def mergeStatement_def testParseCIDR_def addCIDR_def
        del: MatchString.simps)
qed

lemma mergeStatement_ranges:
  "rangesOf (mergeStatement parse cur args zones) cur =
     rangesOf zones cur @ staticRanges parse cur [args]"
proof (cases "2 \<le> length args \<and> hd args = cur \<and> MatchString awsZoneIDPattern cur")
  case True
  then obtain zoneName cidrArgs where "args = zoneName # cidrArgs"
    by (cases args) auto
  with True show ?thesis
    by (simp add: mergeStatement_def addCIDRArgs_eq staticRanges_def rangesOf_def)
next
  case False
  then show ?thesis
    by (cases args) (auto simp: mergeStatement_def staticRanges_def)
qed

lemma mergeStatement_elsewhere:
  "k \<noteq> cur \<Longrightarrow> mergeStatement parse cur args zones k = zones k"
  by (cases args) (auto simp: mergeStatement_def addCIDRArgs_eq)

lemma staticRanges_Cons:
  "staticRanges parse cur (args # rest) = staticRanges parse cur [args] @ staticRanges parse cur rest"
  by (simp add: staticRanges_def)

lemma parseCorefile_ranges:
  "rangesOf (parseCorefile parse cur corefile zones) cur =
     rangesOf zones cur @ staticRanges parse cur corefile"
proof (induction corefile arbitrary: zones)
  case Nil
  then show ?case by (simp add: staticRanges_def)
next
  case (Cons args rest)
  have "rangesOf (parseCorefile parse cur (args # rest) zones) cur =
          rangesOf (mergeStatement parse cur args zones) cur @ staticRanges parse cur rest"
    using Cons.IH [of "mergeStatement parse cur args zones"] by simp
  then show ?case
    by (simp add: mergeStatement_ranges staticRanges_Cons [of parse cur args rest])
qed

lemma parseCorefile_elsewhere:
  "k \<noteq> cur \<Longrightarrow> parseCorefile parse cur corefile zones k = zones k"
  by (induction corefile arbitrary: zones) (simp_all add: mergeStatement_elsewhere)

lemma finish_handler:
  "handler (finish d cf l) =
     (if currentAvailabilityZoneId l = [] then l
      else l\<lparr>Zones := parseCorefile (ParseCIDR d) (currentAvailabilityZoneId l) cf (Zones l)\<rparr>)"
  by (simp add: finish_def split: option.splits)

lemma finish_installed_iff:
  "installed (finish d cf l) =
     (currentAvailabilityZoneId l \<noteq> []
      \<and> rangesOf (Zones (handler (finish d cf l))) (currentAvailabilityZoneId l) \<noteq> [])"
  by (auto simp: finish_def rangesOf_def split: option.splits)

lemma setup_static:
  assumes "setup_plugin d [] = Some (Inr res0)"
  shows "\<exists>res. setup_plugin d cf = Some (Inr res)
           \<and> currentAvailabilityZoneId (handler res) = currentAvailabilityZoneId (handler res0)
           \<and> (currentAvailabilityZoneId (handler res0) \<noteq> [] \<longrightarrow>
                rangesOf (Zones (handler res)) (currentAvailabilityZoneId (handler res0)) =
                  rangesOf (Zones (handler res0)) (currentAvailabilityZoneId (handler res0))
                  @ staticRanges (ParseCIDR d) (currentAvailabilityZoneId (handler res0)) cf
                \<and> (\<forall>k. k \<noteq> currentAvailabilityZoneId (handler res0) \<longrightarrow>
                       Zones (handler res) k = Zones (handler res0) k)
                \<and> installed res =
                    (rangesOf (Zones (handler res)) (currentAvailabilityZoneId (handler res0)) \<noteq> []))"
proof -
  from assms obtain imds l where i: "getConfigFromIMDSv2Func d = Some imds"
    and l: "discover d imds \<lparr>Next = None, Zones = Map.empty, currentAvailabilityZoneId = [],
                   HasSynced = False\<rparr> = Some (Inr l)"
    and r: "res0 = finish d [] (envFallback d l)"
    by (rule setup_plugin_Some)
  let ?l = "envFallback d l"
  let ?res = "finish d cf ?l"
  have s: "setup_plugin d cf = Some (Inr ?res)"
    using i l by (simp add: setup_plugin_def)
  have h0: "handler res0 = ?l"
    unfolding r by (simp add: finish_handler)
  have c: "currentAvailabilityZoneId (handler ?res) = currentAvailabilityZoneId ?l"
    by (rule handler_finish_cur)
  have rest: "currentAvailabilityZoneId ?l \<noteq> [] \<longrightarrow>
                rangesOf (Zones (handler ?res)) (currentAvailabilityZoneId ?l) =
                  rangesOf (Zones ?l) (currentAvailabilityZoneId ?l)
                  @ staticRanges (ParseCIDR d) (currentAvailabilityZoneId ?l) cf
                \<and> (\<forall>k. k \<noteq> currentAvailabilityZoneId ?l \<longrightarrow> Zones (handler ?res) k = Zones ?l k)
                \<and> installed ?res = (rangesOf (Zones (handler ?res)) (currentAvailabilityZoneId ?l) \<noteq> [])"
    by (simp add: finish_installed_iff) (simp add: finish_handler parseCorefile_ranges parseCorefile_elsewhere)
  from s c rest show ?thesis
    unfolding h0 by blast
qed

section \<open>Setup: claims\<close>

text \<open>
  Claim C8. A statement that is empty or names a zone other than the current one leaves
  the registry as it was, so the Corefile with the statement and the Corefile without it
  give the same registry and the same outcome of the whole set-up. A statement for the
  current zone with at least one argument appends to the current zone's table exactly the
  arguments that parse, in their order: an argument that does not parse is skipped and
  the ones beside it are kept. For the loop over the Corefile and for the set-up as a
  whole: the table of the current zone after the Corefile is the table before it (what
  discovery found) followed by the ranges that the Corefile declares for the current zone,
  no other zone's entry changes, and the plugin is installed exactly when that table is
  not empty.
\<close>

theorem static_merge:
  "(args = [] \<or> hd args \<noteq> cur \<longrightarrow>
      mergeStatement parse cur args zones = zones
      \<and> parseCorefile parse cur (before @ args # after) zones =
          parseCorefile parse cur (before @ after) zones)
   \<and> (\<forall>res. setup_plugin d (before @ after) = Some (Inr res)
          \<and> (args = [] \<or> hd args \<noteq> currentAvailabilityZoneId (handler res))
        \<longrightarrow> setup_plugin d (before @ args # after) = Some (Inr res))
   \<and> (2 \<le> length args \<and> hd args = cur \<and> MatchString awsZoneIDPattern cur \<longrightarrow>
        mergeStatement parse cur args zones =
          (if validCIDRs parse (tl args) = [] then zones
           else zones(cur \<mapsto> \<lparr>CIDRs = rangesOf zones cur @ validCIDRs parse (tl args)\<rparr>)))
   \<and> rangesOf (parseCorefile parse cur corefile zones) cur =
       rangesOf zones cur @ staticRanges parse cur corefile
   \<and> (\<forall>k. k \<noteq> cur \<longrightarrow> parseCorefile parse cur corefile zones k = zones k)
   \<and> (\<forall>res0. setup_plugin d [] = Some (Inr res0) \<longrightarrow>
        (\<exists>res. setup_plugin d corefile = Some (Inr res)
           \<and> currentAvailabilityZoneId (handler res) = currentAvailabilityZoneId (handler res0)
           \<and> (currentAvailabilityZoneId (handler res0) \<noteq> [] \<longrightarrow>
                rangesOf (Zones (handler res)) (currentAvailabilityZoneId (handler res0)) =
                  rangesOf (Zones (handler res0)) (currentAvailabilityZoneId (handler res0))
                  @ staticRanges (ParseCIDR d) (currentAvailabilityZoneId (handler res0)) corefile
                \<and> (\<forall>k. k \<noteq> currentAvailabilityZoneId (handler res0) \<longrightarrow>
                       Zones (handler res) k = Zones (handler res0) k)
                \<and> installed res =
                    (rangesOf (Zones (handler res)) (currentAvailabilityZoneId (handler res0)) \<noteq> []))))"
proof -
  have other: "args = [] \<or> hd args \<noteq> cur \<longrightarrow>
      mergeStatement parse cur args zones = zones
      \<and> parseCorefile parse cur (before @ args # after) zones =
          parseCorefile parse cur (before @ after) zones"
    using mergeStatement_other parseCorefile_other by blast
  have whole: "\<forall>res. setup_plugin d (before @ after) = Some (Inr res)
          \<and> (args = [] \<or> hd args \<noteq> currentAvailabilityZoneId (handler res))
        \<longrightarrow> setup_plugin d (before @ args # after) = Some (Inr res)"
  proof (intro allI impI)
    fix res
    assume a: "setup_plugin d (before @ after) = Some (Inr res)
          \<and> (args = [] \<or> hd args \<noteq> currentAvailabilityZoneId (handler res))"
    then obtain imds l where i: "getConfigFromIMDSv2Func d = Some imds"
      and l: "discover d imds \<lparr>Next = None, Zones = Map.empty, currentAvailabilityZoneId = [],
                     HasSynced = False\<rparr> = Some (Inr l)"
      and r: "res = finish d (before @ after) (envFallback d l)"
      using setup_plugin_Some by blast
    have "currentAvailabilityZoneId (handler (finish d (before @ after) (envFallback d l))) =
            currentAvailabilityZoneId (envFallback d l)"
      by (rule handler_finish_cur)
    with a r have "args = [] \<or> hd args \<noteq> currentAvailabilityZoneId (envFallback d l)"
      by simp
    then have "finish d (before @ args # after) (envFallback d l) = res"
      using r by (simp add: finish_other)
    with i l show "setup_plugin d (before @ args # after) = Some (Inr res)"
      by (simp add: setup_plugin_def)
  qed
  have own: "2 \<le> length args \<and> hd args = cur \<and> MatchString awsZoneIDPattern cur \<longrightarrow>
        mergeStatement parse cur args zones =
          (if validCIDRs parse (tl args) = [] then zones
           else zones(cur \<mapsto> \<lparr>CIDRs = rangesOf zones cur @ validCIDRs parse (tl args)\<rparr>))"
  proof
    assume a: "2 \<le> length args \<and> hd args = cur \<and> MatchString awsZoneIDPattern cur"
    then obtain zoneName cidrArgs where "args = zoneName # cidrArgs"
      by (cases args) auto
    with a show "mergeStatement parse cur args zones =
          (if validCIDRs parse (tl args) = [] then zones
           else zones(cur \<mapsto> \<lparr>CIDRs = rangesOf zones cur @ validCIDRs parse (tl args)\<rparr>))"
      by (simp add: mergeStatement_def addCIDRArgs_eq)
  qed
  have loop: "rangesOf (parseCorefile parse cur corefile zones) cur =
       rangesOf zones cur @ staticRanges parse cur corefile"
    by (rule parseCorefile_ranges)
  have elsewhere: "\<forall>k. k \<noteq> cur \<longrightarrow> parseCorefile parse cur corefile zones k = zones k"
    by (simp add: parseCorefile_elsewhere)
  have installed: "\<forall>res0. setup_plugin d [] = Some (Inr res0) \<longrightarrow>
        (\<exists>res. setup_plugin d corefile = Some (Inr res)
           \<and> currentAvailabilityZoneId (handler res) = currentAvailabilityZoneId (handler res0)
           \<and> (currentAvailabilityZoneId (handler res0) \<noteq> [] \<longrightarrow>
                rangesOf (Zones (handler res)) (currentAvailabilityZoneId (handler res0)) =
                  rangesOf (Zones (handler res0)) (currentAvailabilityZoneId (handler res0))
                  @ staticRanges (ParseCIDR d) (currentAvailabilityZoneId (handler res0)) corefile
                \<and> (\<forall>k. k \<noteq> currentAvailabilityZoneId (handler res0) \<longrightarrow>
                       Zones (handler res) k = Zones (handler res0) k)
                \<and> installed res =
                    (rangesOf (Zones (handler res)) (currentAvailabilityZoneId (handler res0)) \<noteq> [])))"
    using setup_static by blast
  from other whole own loop elsewhere installed show ?thesis
    by (intro conjI)
qed

theorem static_merge_witness:
  "mergeStatement testParseCIDR ''use1-az1'' [''usw2-az2'', ''192.168.1.0/24''] Map.empty = Map.empty
   \<and> mergeStatement testParseCIDR ''use1-az1''
        [''use1-az1'', ''192.168.1.0/24'', ''10.0.0.0/33'', ''172.16.0.0/16'']
        [''use1-az1'' \<mapsto> \<lparr>CIDRs = [prefix24 10 0 1]\<rparr>] =
      [''use1-az1'' \<mapsto> \<lparr>CIDRs = [prefix24 10 0 1, prefix24 192 168 1,
                                     \<lparr>IP = [172, 16, 0, 0], Mask = [255, 255, 0, 0]\<rparr>]\<rparr>]
   \<and> setup_plugin (production sdkUnreachable testParseCIDR (envWith ''use1-az1''))
        [[''usw2-az2'', ''10.0.1.0/24''],
         [''use1-az1'', ''192.168.1.0/24'', ''10.0.0.0/33'', ''172.16.0.0/16'']] =
      setup_plugin (production sdkUnreachable testParseCIDR (envWith ''use1-az1''))
        [[''use1-az1'', ''192.168.1.0/24'', ''10.0.0.0/33'', ''172.16.0.0/16'']]
   \<and> (\<exists>res. setup_plugin (production sdkOneSubnet testParseCIDR (envWith ''usw2-az2''))
               [[''usw2-az2'', ''10.0.2.0/24''],
                [''use1-az1'', ''192.168.1.0/24'', ''10.0.0.0/33'', ''172.16.0.0/16''],
                [''use1-az1'']] = Some (Inr res)
          \<and> currentAvailabilityZoneId (handler res) = ''use1-az1''
          \<and> rangesOf (Zones (handler res)) ''use1-az1'' =
               [prefix24 10 0 1, prefix24 192 168 1,
                \<lparr>IP = [172, 16, 0, 0], Mask = [255, 255, 0, 0]\<rparr>]
          \<and> Zones (handler res) ''usw2-az2'' = None
          \<and> installed res)"
proof -
  have v: "validCIDRs testParseCIDR [''192.168.1.0/24'', ''10.0.0.0/33'', ''172.16.0.0/16''] =
             [prefix24 192 168 1, \<lparr>IP = [172, 16, 0, 0], Mask = [255, 255, 0, 0]\<rparr>]"
    by (simp add: validCIDRs_def testParseCIDR_def)
  have c123: "mergeStatement testParseCIDR ''use1-az1'' [''usw2-az2'', ''192.168.1.0/24''] Map.empty = Map.empty
   \<and> mergeStatement testParseCIDR ''use1-az1''
        [''use1-az1'', ''192.168.1.0/24'', ''10.0.0.0/33'', ''172.16.0.0/16'']
        [''use1-az1'' \<mapsto> \<lparr>CIDRs = [prefix24 10 0 1]\<rparr>] =
      [''use1-az1'' \<mapsto> \<lparr>CIDRs = [prefix24 10 0 1, prefix24 192 168 1,
                                     \<lparr>IP = [172, 16, 0, 0], Mask = [255, 255, 0, 0]\<rparr>]\<rparr>]
   \<and> setup_plugin (production sdkUnreachable testParseCIDR (envWith ''use1-az1''))
        [[''usw2-az2'', ''10.0.1.0/24''],
         [''use1-az1'', ''192.168.1.0/24'', ''10.0.0.0/33'', ''172.16.0.0/16'']] =
      setup_plugin (production sdkUnreachable testParseCIDR (envWith ''use1-az1''))
        [[''use1-az1'', ''192.168.1.0/24'', ''10.0.0.0/33'', ''172.16.0.0/16'']]"
    using static_merge [where args = "[''usw2-az2'', ''192.168.1.0/24'']" and cur = "''use1-az1''"
        and parse = testParseCIDR and zones = Map.empty]
      static_merge [where args = "[''use1-az1'', ''192.168.1.0/24'', ''10.0.0.0/33'', ''172.16.0.0/16'']"
        and cur = "''use1-az1''" and parse = testParseCIDR
        and zones = "[''use1-az1'' \<mapsto> \<lparr>CIDRs = [prefix24 10 0 1]\<rparr>]"]
      static_merge [where args = "[''usw2-az2'', ''10.0.1.0/24'']" and before = "[]"
        and after = "[[''use1-az1'', ''192.168.1.0/24'', ''10.0.0.0/33'', ''172.16.0.0/16'']]"
        and d = "production sdkUnreachable testParseCIDR (envWith ''use1-az1'')"]
    by (simp add: v match_examples(1) rangesOf_def setup_env_example del: MatchString.simps)
  let ?d = "production sdkOneSubnet testParseCIDR (envWith ''usw2-az2'')"
  let ?cf = "[[''usw2-az2'', ''10.0.2.0/24''],
              [''use1-az1'', ''192.168.1.0/24'', ''10.0.0.0/33'', ''172.16.0.0/16''],
              [''use1-az1'']]"
  let ?res0 = "\<lparr>handler = \<lparr>Next = None,
                            Zones = [''use1-az1'' \<mapsto> \<lparr>CIDRs = [prefix24 10 0 1]\<rparr>],
                            currentAvailabilityZoneId = ''use1-az1'',
                            HasSynced = False\<rparr>,
                 installed = True\<rparr>"
  have s: "staticRanges (ParseCIDR ?d) ''use1-az1'' ?cf =
             [prefix24 192 168 1, \<lparr>IP = [172, 16, 0, 0], Mask = [255, 255, 0, 0]\<rparr>]"
    by (simp add: staticRanges_def production_def v match_examples(1) del: MatchString.simps)
  from static_merge [where d = ?d and corefile = ?cf] setup_discovered_example
  obtain res where r: "setup_plugin ?d ?cf = Some (Inr res)"
    and c: "currentAvailabilityZoneId (handler res) = currentAvailabilityZoneId (handler ?res0)"
    and t: "currentAvailabilityZoneId (handler ?res0) \<noteq> [] \<longrightarrow>
                rangesOf (Zones (handler res)) (currentAvailabilityZoneId (handler ?res0)) =
                  rangesOf (Zones (handler ?res0)) (currentAvailabilityZoneId (handler ?res0))
                  @ staticRanges (ParseCIDR ?d) (currentAvailabilityZoneId (handler ?res0)) ?cf
                \<and> (\<forall>k. k \<noteq> currentAvailabilityZoneId (handler ?res0) \<longrightarrow>
                       Zones (handler res) k = Zones (handler ?res0) k)
                \<and> installed res =
                    (rangesOf (Zones (handler res)) (currentAvailabilityZoneId (handler ?res0)) \<noteq> [])"
    by blast
  from c have c': "currentAvailabilityZoneId (handler res) = ''use1-az1''"
    by simp
  from t have t1: "rangesOf (Zones (handler res)) ''use1-az1'' =
      rangesOf [''use1-az1'' \<mapsto> \<lparr>CIDRs = [prefix24 10 0 1]\<rparr>] ''use1-az1''
      @ staticRanges (ParseCIDR ?d) ''use1-az1'' ?cf"
    and t2: "\<forall>k. k \<noteq> ''use1-az1'' \<longrightarrow>
               Zones (handler res) k = [''use1-az1'' \<mapsto> \<lparr>CIDRs = [prefix24 10 0 1]\<rparr>] k"
    and t3: "installed res = (rangesOf (Zones (handler res)) ''use1-az1'' \<noteq> [])"
    by simp_all
  from t1 have t1': "rangesOf (Zones (handler res)) ''use1-az1'' =
               [prefix24 10 0 1, prefix24 192 168 1,
                \<lparr>IP = [172, 16, 0, 0], Mask = [255, 255, 0, 0]\<rparr>]"
    unfolding s by (simp add: rangesOf_def)
  from t2 have t2': "Zones (handler res) ''usw2-az2'' = None"
    by simp
  from t3 t1' have t3': "installed res"
    by simp
  from r c' t1' t2' t3' have c4: "\<exists>res. setup_plugin ?d ?cf = Some (Inr res)
          \<and> currentAvailabilityZoneId (handler res) = ''use1-az1''
          \<and> rangesOf (Zones (handler res)) ''use1-az1'' =
               [prefix24 10 0 1, prefix24 192 168 1,
                \<lparr>IP = [172, 16, 0, 0], Mask = [255, 255, 0, 0]\<rparr>]
          \<and> Zones (handler res) ''usw2-az2'' = None
          \<and> installed res"
    by blast
  from c123 c4 show ?thesis
    by blast
qed



text \<open>
  Claim C10, as amended. A plugin that the set-up installs has a table for its current
  zone with at least one range, and \<^verbatim>\<open>ServeDNS\<close> on it never dereferences a nil zone. For a
  plugin without a table for its current zone, a successful response with two or more
  answers makes \<^verbatim>\<open>ServeDNS\<close> dereference the nil zone exactly when some answer carries an
  address: the table is read only for such answers. The panic then comes before any
  instrument is touched; and when no answer carries an address the response is written as
  it came, after one observation of the latency.
\<close>

theorem table_lookup_safety:
  "(\<forall>res. setup_plugin d cf = Some (Inr res) \<and> installed res \<longrightarrow>
      (\<exists>z. Zones (handler res) (currentAvailabilityZoneId (handler res)) = Some z \<and> CIDRs z \<noteq> [])
      \<and> (\<forall>next server elapsed w req mx m.
            ServeDNS (activate (handler res) next) server elapsed w req mx
              \<noteq> Inl (NilPointerDereference, m)))
   \<and> (Zones e (currentAvailabilityZoneId e) = None
        \<and> NextOrFailure (Next e) req = \<lparr>nrcode = rc, nerr = None, nmsg = Some msg\<rparr>
        \<and> Rcode msg = RcodeSuccess \<and> 2 \<le> length (Answer msg) \<longrightarrow>
        ((\<exists>m. ServeDNS e server elapsed w req mx = Inl (NilPointerDereference, m))
           = (\<exists>rr \<in> set (Answer msg). extractRRIP rr \<noteq> None))
        \<and> ((\<exists>rr \<in> set (Answer msg). extractRRIP rr \<noteq> None) \<longrightarrow>
              ServeDNS e server elapsed w req mx = Inl (NilPointerDereference, mx))
        \<and> ((\<forall>rr \<in> set (Answer msg). extractRRIP rr = None) \<longrightarrow>
              ServeDNS e server elapsed w req mx =
                Inr (writeFinalResponse w msg (Observe server elapsed mx))))"
proof (intro conjI allI impI)
  fix res
  assume a: "setup_plugin d cf = Some (Inr res) \<and> installed res"
  then obtain l where r: "res = finish d cf l"
    using setup_plugin_Some by blast
  with a show z: "\<exists>z. Zones (handler res) (currentAvailabilityZoneId (handler res)) = Some z \<and> CIDRs z \<noteq> []"
    using finish_installed by blast
  fix "next" server elapsed w req mx m
  from z obtain z' where "Zones (activate (handler res) next)
      (currentAvailabilityZoneId (activate (handler res) next)) = Some z'"
    by (auto simp: activate_def)
  then show "ServeDNS (activate (handler res) next) server elapsed w req mx
               \<noteq> Inl (NilPointerDereference, m)"
    by (rule ServeDNS_table_present)
next
  assume a: "Zones e (currentAvailabilityZoneId e) = None
        \<and> NextOrFailure (Next e) req = \<lparr>nrcode = rc, nerr = None, nmsg = Some msg\<rparr>
        \<and> Rcode msg = RcodeSuccess \<and> 2 \<le> length (Answer msg)"
  then have eq: "ServeDNS e server elapsed w req mx =
           (if list_all (\<lambda>rr. extractRRIP rr = None) (Answer msg)
            then Inr (writeFinalResponse w msg (Observe server elapsed mx))
            else Inl (NilPointerDereference, mx))"
    using ServeDNS_table_absent by blast
  then show "(\<exists>m. ServeDNS e server elapsed w req mx = Inl (NilPointerDereference, m))
          = (\<exists>rr \<in> set (Answer msg). extractRRIP rr \<noteq> None)"
    by (auto simp: list_all_iff)
  {
    assume "\<exists>rr \<in> set (Answer msg). extractRRIP rr \<noteq> None"
    with eq show "ServeDNS e server elapsed w req mx = Inl (NilPointerDereference, mx)"
      by (auto simp: list_all_iff)
  }
  {
    assume "\<forall>rr \<in> set (Answer msg). extractRRIP rr = None"
    with eq show "ServeDNS e server elapsed w req mx =
                Inr (writeFinalResponse w msg (Observe server elapsed mx))"
      by (simp add: list_all_iff)
  }
qed

theorem table_lookup_safety_witness:
  "(\<exists>res. setup_plugin (production sdkOneSubnet testParseCIDR (envWith ''usw2-az2'')) [] = Some (Inr res)
      \<and> installed res
      \<and> (\<forall>m. ServeDNS (activate (handler res) (Some (mockHandler (reply 0 mixedAnswers)))) ''dns://:53'' 7
            okWriter exampleRequest noMetrics \<noteq> Inl (NilPointerDereference, m)))
   \<and> ServeDNS (barePlugin (reply 0 mixedAnswers)) ''dns://:53'' 7 okWriter exampleRequest noMetrics
        = Inl (NilPointerDereference, noMetrics)
   \<and> ServeDNS (barePlugin (reply 0 aliasAnswers)) ''dns://:53'' 7 okWriter exampleRequest noMetrics
        = Inr (writeFinalResponse okWriter (reply 0 aliasAnswers) (Observe ''dns://:53'' 7 noMetrics))"
proof -
  have h: "Rcode (reply 0 answers) = RcodeSuccess" for answers
    by (simp add: reply_def RcodeSuccess_def)
  have l: "2 \<le> length (Answer (reply 0 mixedAnswers))" "2 \<le> length (Answer (reply 0 aliasAnswers))"
    by (simp_all add: reply_def mixedAnswers_def aliasAnswers_def)
  have x: "\<exists>rr \<in> set (Answer (reply 0 mixedAnswers)). extractRRIP rr \<noteq> None"
    "\<forall>rr \<in> set (Answer (reply 0 aliasAnswers)). extractRRIP rr = None"
    by (simp_all add: reply_def mixedAnswers_def aliasAnswers_def)
  note inst1 = table_lookup_safety [where d = "production sdkOneSubnet testParseCIDR (envWith ''usw2-az2'')"
        and cf = "[]" and e = "barePlugin (reply 0 mixedAnswers)" and req = exampleRequest
        and rc = RcodeSuccess and msg = "reply 0 mixedAnswers" and server = "''dns://:53''"
        and elapsed = 7 and w = okWriter and mx = noMetrics]
  note inst2 = table_lookup_safety [where d = "production sdkOneSubnet testParseCIDR (envWith ''usw2-az2'')"
        and cf = "[]" and e = "barePlugin (reply 0 aliasAnswers)" and req = exampleRequest
        and rc = RcodeSuccess and msg = "reply 0 aliasAnswers" and server = "''dns://:53''"
        and elapsed = 7 and w = okWriter and mx = noMetrics]
  from inst1 setup_discovered_example
  have c1: "\<exists>res. setup_plugin (production sdkOneSubnet testParseCIDR (envWith ''usw2-az2'')) [] = Some (Inr res)
      \<and> installed res
      \<and> (\<forall>m. ServeDNS (activate (handler res) (Some (mockHandler (reply 0 mixedAnswers)))) ''dns://:53'' 7
            okWriter exampleRequest noMetrics \<noteq> Inl (NilPointerDereference, m))"
    by auto
  from inst1 bare_next [of "reply 0 mixedAnswers" exampleRequest] bare_zone [of "reply 0 mixedAnswers"]
    h [of mixedAnswers] l(1) x(1)
  have c2: "ServeDNS (barePlugin (reply 0 mixedAnswers)) ''dns://:53'' 7 okWriter exampleRequest noMetrics
        = Inl (NilPointerDereference, noMetrics)"
    by blast
  from inst2 bare_next [of "reply 0 aliasAnswers" exampleRequest] bare_zone [of "reply 0 aliasAnswers"]
    h [of aliasAnswers] l(2) x(2)
  have c3: "ServeDNS (barePlugin (reply 0 aliasAnswers)) ''dns://:53'' 7 okWriter exampleRequest noMetrics
        = Inr (writeFinalResponse okWriter (reply 0 aliasAnswers) (Observe ''dns://:53'' 7 noMetrics))"
    by blast
  from c1 c2 c3 show ?thesis by blast
qed

text \<open>
  The claim as stated fails for a plugin without a table whose next handler answers with
  two records that carry no address: no table is read, nothing panics, and the message is
  written as it came.
\<close>

theorem address_free_answers_skip_table:
  "Zones (barePlugin (reply 0 aliasAnswers)) (currentAvailabilityZoneId (barePlugin (reply 0 aliasAnswers))) = None
   \<and> Rcode (reply 0 aliasAnswers) = RcodeSuccess
   \<and> length (Answer (reply 0 aliasAnswers)) = 2
   \<and> ServeDNS (barePlugin (reply 0 aliasAnswers)) ''dns://:53'' 7 okWriter exampleRequest noMetrics =
       Inr \<lparr>rcode = RcodeSuccess, err = None, written = Some (reply 0 aliasAnswers),
            metrics = Observe ''dns://:53'' 7 noMetrics\<rparr>"
proof -
  have "classify (barePlugin (reply 0 aliasAnswers)) aliasAnswers [] [] = Inr ([], aliasAnswers)"
    using classify_absent [OF bare_zone, of "reply 0 aliasAnswers" aliasAnswers "[]" "[]"]
    by (simp add: aliasAnswers_def)
  moreover have "length aliasAnswers = 2"
    by (simp add: aliasAnswers_def)
  ultimately show ?thesis
    by (simp add: ServeDNS_def bare_next bare_zone reply_def RcodeSuccess_def
        writeFinalResponse_def okWriter_def)
qed

text \<open>
  Claim C2, as amended. The identity lookup runs under a timeout of two seconds: every
  call that \<^verbatim>\<open>getConfigFromIMDSv2\<close> makes into the SDK receives the context
  \<^verbatim>\<open>WithTimeout(Background, imdsTimeout)\<close>, so it returns whenever the SDK's calls return
  under a deadline. The inventory lookup has no timeout: the set-up calls
  \<^verbatim>\<open>getSubnetsFromEC2Func\<close> with \<^verbatim>\<open>context.Background()\<close> only, \<^verbatim>\<open>getSubnetsFromEC2\<close> passes
  the context it is given on to the SDK, and \<^verbatim>\<open>Background\<close> has no deadline.
\<close>

theorem discovery_timeouts:
  "getConfigFromIMDSv2
     (sdk\<lparr>LoadDefaultConfig := \<lambda>ctx. LoadDefaultConfig sdk (WithTimeout Background imdsTimeout),
          GetMetadata := \<lambda>cfg ctx. GetMetadata sdk cfg (WithTimeout Background imdsTimeout)\<rparr>)
     = getConfigFromIMDSv2 sdk
   \<and> deadline (WithTimeout Background imdsTimeout) = Some 2000000000
   \<and> ((\<forall>ctx region. deadline ctx \<noteq> None \<longrightarrow> LoadDefaultConfig sdk ctx region \<noteq> None)
        \<and> (\<forall>cfg ctx path. deadline ctx \<noteq> None \<longrightarrow> GetMetadata sdk cfg ctx path \<noteq> None)
       \<longrightarrow> getConfigFromIMDSv2 sdk \<noteq> None)
   \<and> setup_plugin (d\<lparr>getSubnetsFromEC2Func := \<lambda>ctx. getSubnetsFromEC2Func d Background\<rparr>) cf
       = setup_plugin d cf
   \<and> getSubnetsFromEC2
        (sdk\<lparr>LoadDefaultConfig := \<lambda>c. LoadDefaultConfig sdk ctx,
             DescribeSubnets := \<lambda>cfg c. DescribeSubnets sdk cfg ctx\<rparr>) ctx azID region
       = getSubnetsFromEC2 sdk ctx azID region
   \<and> deadline Background = None"
proof -
  have "deadline (WithTimeout Background imdsTimeout) = Some 2000000000"
    by (simp add: imdsTimeout_def)
  moreover have "(\<forall>ctx region. deadline ctx \<noteq> None \<longrightarrow> LoadDefaultConfig sdk ctx region \<noteq> None)
        \<and> (\<forall>cfg ctx path. deadline ctx \<noteq> None \<longrightarrow> GetMetadata sdk cfg ctx path \<noteq> None)
       \<longrightarrow> getConfigFromIMDSv2 sdk \<noteq> None"
    using imds_returns [of sdk] by blast
  moreover have "deadline Background = None"
    by simp
  ultimately show ?thesis
    using imds_bounded [of sdk] setup_plugin_Background [of d cf] inventory_forwards [of sdk ctx azID region]
    by blast
qed

theorem discovery_timeouts_witness:
  "getConfigFromIMDSv2 sdkUnreachable \<noteq> None
   \<and> deadline (WithTimeout Background imdsTimeout) = Some 2000000000"
proof -
  have h1: "\<forall>ctx region. deadline ctx \<noteq> None \<longrightarrow> LoadDefaultConfig sdkUnreachable ctx region \<noteq> None"
    by (simp add: sdkUnreachable_def)
  have h2: "\<forall>cfg ctx path. deadline ctx \<noteq> None \<longrightarrow> GetMetadata sdkUnreachable cfg ctx path \<noteq> None"
    by (auto simp: sdkUnreachable_def untilDeadline_def)
  show ?thesis
    using discovery_timeouts [where sdk = sdkUnreachable] h1 h2 by blast
qed

text \<open>
  The claim as stated fails for an inventory service that does not answer: the SDK's
  call would end with an error under the timeout of the identity lookup, but under
  \<^verbatim>\<open>context.Background()\<close> it never returns, and neither does the set-up.
\<close>

theorem inventory_lookup_unbounded:
  "getConfigFromIMDSv2 sdkInventoryUnreachable = Some (Inr (''use1-az1'', ''us-east-1''))
   \<and> getSubnetsFromEC2 sdkInventoryUnreachable (WithTimeout Background imdsTimeout) ''use1-az1'' ''us-east-1''
       = Some (Inl (Errorf (''failed to describe subnets for AZ ID '' @ quoted ''use1-az1'')
                      (Error ''context deadline exceeded'')))
   \<and> setup_plugin (production sdkInventoryUnreachable testParseCIDR (envWith [])) [] = None"
proof -
  have "getSubnetsFromEC2 sdkInventoryUnreachable (WithTimeout Background imdsTimeout) ''use1-az1'' ''us-east-1''
       = Some (Inl (Errorf (''failed to describe subnets for AZ ID '' @ quoted ''use1-az1'')
                      (Error ''context deadline exceeded'')))"
    by (simp add: getSubnetsFromEC2_def sdkInventoryUnreachable_def untilDeadline_def)
  moreover have "setup_plugin (production sdkInventoryUnreachable testParseCIDR (envWith [])) [] = None"
    by (simp add: setup_plugin_def production_def imds_reached discover_def inventory_blocks)
  ultimately show ?thesis
    using imds_reached by blast
qed

end
